theory Spec2Isabelle
  imports Complex_Main
begin

section \<open>Numbers and tensors\<close>

text \<open>
  Tensor elements are floating-point numbers.  The model keeps the four kinds of value
  that the source distinguishes (finite, the two infinities, not-a-number) and computes
  on finite values with exact real arithmetic: rounding, overflow to infinity and the
  sign of zero are not modelled.  Tensors are nested lists, outermost axis first.
\<close>

datatype fl = Fin real | PInf | NInf | NaN

type_synonym vec = "fl list"
type_synonym tensor2 = "fl list list"
type_synonym tensor3 = "fl list list list"
type_synonym tensor4 = "fl list list list list"
type_synonym tensor5 = "fl list list list list list"

datatype error = ValueError string | AssertionError | ZeroDivisionError | RuntimeError | IndexError

fun isnan :: "fl \<Rightarrow> bool" where
  "isnan NaN = True"
| "isnan _ = False"

fun is_finite :: "fl \<Rightarrow> bool" where
  "is_finite (Fin _) = True"
| "is_finite _ = False"

fun fneg :: "fl \<Rightarrow> fl" where
  "fneg (Fin a) = Fin (- a)"
| "fneg PInf = NInf"
| "fneg NInf = PInf"
| "fneg NaN = NaN"

fun fadd :: "fl \<Rightarrow> fl \<Rightarrow> fl" where
  "fadd (Fin a) (Fin b) = Fin (a + b)"
| "fadd (Fin a) PInf = PInf"
| "fadd (Fin a) NInf = NInf"
| "fadd PInf (Fin b) = PInf"
| "fadd PInf PInf = PInf"
| "fadd NInf (Fin b) = NInf"
| "fadd NInf NInf = NInf"
| "fadd PInf NInf = NaN"
| "fadd NInf PInf = NaN"
| "fadd NaN _ = NaN"
| "fadd _ NaN = NaN"

definition fsub :: "fl \<Rightarrow> fl \<Rightarrow> fl" where
  "fsub a b = fadd a (fneg b)"

text \<open>The sign of an infinity times a finite factor; zero times infinity is not a number.\<close>

definition inf_times :: "bool \<Rightarrow> real \<Rightarrow> fl" where
  "inf_times pos a = (if a = 0 then NaN else if (0 < a) = pos then PInf else NInf)"

fun fmul :: "fl \<Rightarrow> fl \<Rightarrow> fl" where
  "fmul (Fin a) (Fin b) = Fin (a * b)"
| "fmul (Fin a) PInf = inf_times True a"
| "fmul (Fin a) NInf = inf_times False a"
| "fmul PInf (Fin b) = inf_times True b"
| "fmul NInf (Fin b) = inf_times False b"
| "fmul PInf PInf = PInf"
| "fmul NInf NInf = PInf"
| "fmul PInf NInf = NInf"
| "fmul NInf PInf = NInf"
| "fmul NaN _ = NaN"
| "fmul _ NaN = NaN"

fun fdiv :: "fl \<Rightarrow> fl \<Rightarrow> fl" where
  "fdiv (Fin a) (Fin b) =
     (if b = 0 then (if a = 0 then NaN else if 0 < a then PInf else NInf) else Fin (a / b))"
| "fdiv (Fin a) PInf = Fin 0"
| "fdiv (Fin a) NInf = Fin 0"
| "fdiv PInf (Fin b) = (if 0 \<le> b then PInf else NInf)"
| "fdiv NInf (Fin b) = (if 0 \<le> b then NInf else PInf)"
| "fdiv PInf PInf = NaN"
| "fdiv PInf NInf = NaN"
| "fdiv NInf PInf = NaN"
| "fdiv NInf NInf = NaN"
| "fdiv NaN _ = NaN"
| "fdiv _ NaN = NaN"

fun fexp :: "fl \<Rightarrow> fl" where
  "fexp (Fin a) = Fin (exp a)"
| "fexp PInf = PInf"
| "fexp NInf = Fin 0"
| "fexp NaN = NaN"

fun fsqrt :: "fl \<Rightarrow> fl" where
  "fsqrt (Fin a) = (if a < 0 then NaN else Fin (sqrt a))"
| "fsqrt PInf = PInf"
| "fsqrt NInf = NaN"
| "fsqrt NaN = NaN"

text \<open>The maximum of two values; a not-a-number operand wins, as in \<open>torch.max\<close>.\<close>

fun fmax :: "fl \<Rightarrow> fl \<Rightarrow> fl" where
  "fmax NaN _ = NaN"
| "fmax _ NaN = NaN"
| "fmax PInf _ = PInf"
| "fmax _ PInf = PInf"
| "fmax NInf b = b"
| "fmax a NInf = a"
| "fmax (Fin a) (Fin b) = Fin (max a b)"

definition fsum :: "fl list \<Rightarrow> fl" where
  "fsum xs = foldr fadd xs (Fin 0)"

definition dot :: "vec \<Rightarrow> vec \<Rightarrow> fl" where
  "dot u v = fsum (map (\<lambda>(a, b). fmul a b) (zip u v))"

text \<open>
  The sizes of the inner axes of a nested list, read at its first element as
  \<open>x.shape[i]\<close> does; a tensor with an empty outer axis has lost them, so the
  statements below are about tensors all of whose axes are non-empty.
\<close>

definition dim1 :: "'a list list \<Rightarrow> nat" where
  "dim1 x = (case x of [] \<Rightarrow> 0 | r # _ \<Rightarrow> length r)"

definition dim2 :: "'a list list list \<Rightarrow> nat" where
  "dim2 x = (case x of [] \<Rightarrow> 0 | r # _ \<Rightarrow> dim1 r)"

definition dim3 :: "'a list list list list \<Rightarrow> nat" where
  "dim3 x = (case x of [] \<Rightarrow> 0 | r # _ \<Rightarrow> dim2 r)"

definition dim4 :: "'a list list list list list \<Rightarrow> nat" where
  "dim4 x = (case x of [] \<Rightarrow> 0 | r # _ \<Rightarrow> dim3 r)"

definition shape1 :: "'a list \<Rightarrow> nat \<Rightarrow> bool" where
  "shape1 x a \<longleftrightarrow> length x = a"

definition shape2 :: "'a list list \<Rightarrow> nat \<Rightarrow> nat \<Rightarrow> bool" where
  "shape2 x a b \<longleftrightarrow> length x = a \<and> list_all (\<lambda>r. shape1 r b) x"

definition shape3 :: "'a list list list \<Rightarrow> nat \<Rightarrow> nat \<Rightarrow> nat \<Rightarrow> bool" where
  "shape3 x a b c \<longleftrightarrow> length x = a \<and> list_all (\<lambda>r. shape2 r b c) x"

definition shape4 :: "'a list list list list \<Rightarrow> nat \<Rightarrow> nat \<Rightarrow> nat \<Rightarrow> nat \<Rightarrow> bool" where
  "shape4 x a b c d \<longleftrightarrow> length x = a \<and> list_all (\<lambda>r. shape3 r b c d) x"

definition shape5 ::
  "'a list list list list list \<Rightarrow> nat \<Rightarrow> nat \<Rightarrow> nat \<Rightarrow> nat \<Rightarrow> nat \<Rightarrow> bool" where
  "shape5 x a b c d e \<longleftrightarrow> length x = a \<and> list_all (\<lambda>r. shape4 r b c d e) x"

section \<open>PatchEmbedding\<close>

text \<open>
  \<open>nn.Conv2d\<close> with \<open>kernel_size = stride = patch_size\<close> and no padding.  The
  constructor allocates a weight of shape \<open>[out, in, k, k]\<close> and a bias of shape
  \<open>[out]\<close>; their values are given by \<open>winit\<close> and \<open>binit\<close>.  The allocation refuses
  a negative size.
\<close>

record Conv2d =
  cv_in_channels :: int
  cv_out_channels :: int
  cv_kernel_size :: int
  cv_stride :: int
  cv_weight :: tensor4
  cv_bias :: vec

definition Conv2d_init ::
  "int \<Rightarrow> int \<Rightarrow> int \<Rightarrow> int \<Rightarrow> (nat \<Rightarrow> nat \<Rightarrow> nat \<Rightarrow> nat \<Rightarrow> fl) \<Rightarrow> (nat \<Rightarrow> fl)
    \<Rightarrow> error + Conv2d" where
  "Conv2d_init in_channels out_channels kernel_size stride winit binit =
     (if in_channels < 0 \<or> out_channels < 0 \<or> kernel_size < 0 then Inl RuntimeError
      else Inr \<lparr>cv_in_channels = in_channels, cv_out_channels = out_channels,
                cv_kernel_size = kernel_size, cv_stride = stride,
                cv_weight =
                  map (\<lambda>e. map (\<lambda>c. map (\<lambda>ky. map (\<lambda>kx. winit e c ky kx)
                    [0..<nat kernel_size]) [0..<nat kernel_size]) [0..<nat in_channels])
                    [0..<nat out_channels],
                cv_bias = map binit [0..<nat out_channels]\<rparr>)"

text \<open>One output element: the window at \<open>(oy, ox)\<close> against one filter, plus its bias.\<close>

definition conv_at :: "nat \<Rightarrow> nat \<Rightarrow> tensor3 \<Rightarrow> fl \<Rightarrow> tensor3 \<Rightarrow> nat \<Rightarrow> nat \<Rightarrow> fl" where
  "conv_at k s we be img oy ox =
     fadd (fsum (map (\<lambda>(wc, xc).
             fsum (map (\<lambda>ky. fsum (map (\<lambda>kx.
               fmul (wc ! ky ! kx) (xc ! (oy * s + ky) ! (ox * s + kx))) [0..<k])) [0..<k]))
           (zip we img))) be"

definition Conv2d_forward :: "Conv2d \<Rightarrow> tensor4 \<Rightarrow> error + tensor4" where
  "Conv2d_forward cv x =
     (let k = nat (cv_kernel_size cv); s = nat (cv_stride cv); H = dim2 x; W = dim3 x in
      if int (dim1 x) \<noteq> cv_in_channels cv then Inl RuntimeError
      else if cv_stride cv \<le> 0 then Inl RuntimeError
      else if H < k \<or> W < k then Inl RuntimeError
      else Inr (map (\<lambda>img. map (\<lambda>(we, be).
                  map (\<lambda>oy. map (\<lambda>ox. conv_at k s we be img oy ox)
                    [0..<(W - k) div s + 1]) [0..<(H - k) div s + 1])
                  (zip (cv_weight cv) (cv_bias cv))) x))"

record PatchEmbedding =
  pe_img_size :: int
  pe_patch_size :: int
  pe_num_patches :: int
  pe_proj :: Conv2d

text \<open>
  \<open>PatchEmbedding.__init__\<close>: the floor division for \<open>num_patches\<close> comes first and
  raises on a zero patch size; then the divisibility check; then the projection.
\<close>

definition PatchEmbedding_init ::
  "int \<Rightarrow> int \<Rightarrow> int \<Rightarrow> int \<Rightarrow> (nat \<Rightarrow> nat \<Rightarrow> nat \<Rightarrow> nat \<Rightarrow> fl) \<Rightarrow> (nat \<Rightarrow> fl)
    \<Rightarrow> error + PatchEmbedding" where
  "PatchEmbedding_init img_size patch_size in_channels embed_dim winit binit =
     (if patch_size = 0 then Inl ZeroDivisionError
      else if img_size mod patch_size \<noteq> 0
        then Inl (ValueError ''img_size must be divisible by patch_size'')
      else case Conv2d_init in_channels embed_dim patch_size patch_size winit binit of
             Inl e \<Rightarrow> Inl e
           | Inr cv \<Rightarrow> Inr \<lparr>pe_img_size = img_size, pe_patch_size = patch_size,
                            pe_num_patches = (img_size div patch_size) ^ 2,
                            pe_proj = cv\<rparr>)"

text \<open>\<open>x.flatten(2)\<close> and \<open>x.transpose(1, 2)\<close> on a rank-4 and a rank-3 tensor.\<close>

definition flatten2 :: "'a list list list list \<Rightarrow> 'a list list list" where
  "flatten2 x = map (map concat) x"

definition transpose_rows :: "'a list list \<Rightarrow> 'a list list" where
  "transpose_rows m = map (\<lambda>j. map (\<lambda>r. r ! j) m) [0..<dim1 m]"

definition transpose12 :: "'a list list list \<Rightarrow> 'a list list list" where
  "transpose12 x = map transpose_rows x"

text \<open>
  \<open>PatchEmbedding.forward\<close>.  The rank test \<open>x.ndim != 4\<close> is the type of \<open>x\<close>.
  The explicit check covers height and width only; a wrong channel count is
  refused by the convolution.
\<close>

definition PatchEmbedding_forward :: "PatchEmbedding \<Rightarrow> tensor4 \<Rightarrow> error + tensor3" where
  "PatchEmbedding_forward pe x =
     (if int (dim2 x) \<noteq> pe_img_size pe \<or> int (dim3 x) \<noteq> pe_img_size pe
        then Inl (ValueError ''Input tensor must have shape [batch_size, in_channels, img_size, img_size]'')
      else case Conv2d_forward (pe_proj pe) x of
             Inl e \<Rightarrow> Inl e
           | Inr y \<Rightarrow> Inr (transpose12 (flatten2 y)))"

section \<open>PositionalEncoding\<close>

text \<open>
  The table \<open>pe\<close> of shape \<open>[max_len, embed_dim]\<close> (its leading axis of size one is
  the broadcast over the batch).  \<open>div_term\<close> is
  \<open>exp(arange(0, embed_dim, 2) * (-log(10000.0) / embed_dim))\<close>; even columns hold the
  sine and odd columns the cosine of \<open>position * div_term\<close>.
\<close>

record PositionalEncoding =
  pos_embed_dim :: nat
  pos_max_len :: nat
  pos_pe :: tensor2

definition div_term :: "int \<Rightarrow> nat \<Rightarrow> real" where
  "div_term embed_dim i = exp (real (2 * i) * (- ln 10000 / real_of_int embed_dim))"

definition pe_entry :: "int \<Rightarrow> nat \<Rightarrow> nat \<Rightarrow> fl" where
  "pe_entry embed_dim p j =
     (if even j then Fin (sin (real p * div_term embed_dim (j div 2)))
      else Fin (cos (real p * div_term embed_dim (j div 2))))"

definition PositionalEncoding_init :: "int \<Rightarrow> int \<Rightarrow> error + PositionalEncoding" where
  "PositionalEncoding_init embed_dim max_len =
     (if embed_dim mod 2 \<noteq> 0
        then Inl (ValueError ''embed_dim must be even for sinusoidal positional encoding.'')
      else if max_len < 0 \<or> embed_dim < 0 then Inl RuntimeError
      else if embed_dim = 0 then Inl ZeroDivisionError
      else Inr \<lparr>pos_embed_dim = nat embed_dim, pos_max_len = nat max_len,
                pos_pe = map (\<lambda>p. map (\<lambda>j. pe_entry embed_dim p j) [0..<nat embed_dim])
                           [0..<nat max_len]\<rparr>)"

definition PositionalEncoding_forward :: "PositionalEncoding \<Rightarrow> tensor3 \<Rightarrow> error + tensor3" where
  "PositionalEncoding_forward pos x =
     (if dim2 x \<noteq> pos_embed_dim pos
        then Inl (ValueError ''Input embedding dimension must match positional encoding dimension.'')
      else if dim1 x > pos_max_len pos
        then Inl (ValueError ''Input sequence length exceeds maximum length.'')
      else Inr (map (\<lambda>s. map2 (map2 fadd) s (take (dim1 x) (pos_pe pos))) x))"

section \<open>Linear, LayerNorm, softmax\<close>

text \<open>
  \<open>nn.Linear\<close>: weight of shape \<open>[out, in]\<close>, bias of shape \<open>[out]\<close>, applied to the
  last axis.  \<open>nn.LayerNorm\<close> over the last axis with the default \<open>eps = 1e-5\<close> and
  the biased variance.  Dropout layers are the identity: the model is the network in
  evaluation mode.
\<close>

record Linear =
  lin_weight :: tensor2
  lin_bias :: vec

definition Linear_forward :: "Linear \<Rightarrow> vec \<Rightarrow> vec" where
  "Linear_forward l v = map2 (\<lambda>w b. fadd (dot v w) b) (lin_weight l) (lin_bias l)"

record LayerNorm =
  ln_normalized_shape :: nat
  ln_weight :: vec
  ln_bias :: vec

definition ln_eps :: real where
  "ln_eps = 1 / 100000"

definition LayerNorm_forward :: "LayerNorm \<Rightarrow> vec \<Rightarrow> vec" where
  "LayerNorm_forward lnorm v =
     (let n = Fin (real (length v));
          mean = fdiv (fsum v) n;
          var = fdiv (fsum (map (\<lambda>a. fmul (fsub a mean) (fsub a mean)) v)) n;
          denom = fsqrt (fadd var (Fin ln_eps))
      in map2 (\<lambda>a (g, b). fadd (fmul (fdiv (fsub a mean) denom) g) b)
           v (zip (ln_weight lnorm) (ln_bias lnorm)))"

text \<open>\<open>torch.softmax\<close> along one row: shift by the maximum, exponentiate, normalise.\<close>

definition softmax :: "vec \<Rightarrow> vec" where
  "softmax row =
     (let m = foldr fmax row NInf;
          es = map (\<lambda>a. fexp (fsub a m)) row;
          z = fsum es
      in map (\<lambda>e. fdiv e z) es)"

text \<open>
  \<open>torch.nan_to_num(attn, nan=0.0)\<close>: not-a-number becomes zero, and the infinities
  become the largest and smallest finite value of the element type (single precision).
\<close>

definition flt_max :: real where
  "flt_max = (2 - 1 / 2 ^ 23) * 2 ^ 127"

fun nan_to_num :: "fl \<Rightarrow> fl" where
  "nan_to_num NaN = Fin 0"
| "nan_to_num PInf = Fin flt_max"
| "nan_to_num NInf = Fin (- flt_max)"
| "nan_to_num (Fin a) = Fin a"

text \<open>A validity mask is a Boolean tensor; in arithmetic \<open>True\<close> counts as one.\<close>

definition mask_val :: "bool \<Rightarrow> fl" where
  "mask_val m = (if m then Fin 1 else Fin 0)"

definition count_valid :: "bool list \<Rightarrow> nat" where
  "count_valid ms = length (filter (\<lambda>m. m) ms)"

section \<open>MultiHeadSelfAttention\<close>

record MultiHeadSelfAttention =
  mh_embed_dim :: nat
  mh_num_heads :: nat
  mh_head_dim :: nat
  mh_qkv :: Linear
  mh_proj :: Linear

definition MultiHeadSelfAttention_init ::
  "int \<Rightarrow> int \<Rightarrow> Linear \<Rightarrow> Linear \<Rightarrow> error + MultiHeadSelfAttention" where
  "MultiHeadSelfAttention_init embed_dim num_heads qkv proj =
     (if num_heads = 0 then Inl ZeroDivisionError
      else if embed_dim mod num_heads \<noteq> 0 then Inl AssertionError
      else Inr \<lparr>mh_embed_dim = nat embed_dim, mh_num_heads = nat num_heads,
                mh_head_dim = nat (embed_dim div num_heads), mh_qkv = qkv, mh_proj = proj\<rparr>)"

text \<open>
  After \<open>reshape(batch, seq, 3, num_heads, head_dim)\<close> and \<open>permute(2, 0, 3, 1, 4)\<close>,
  part \<open>t\<close> (0 query, 1 key, 2 value) of head \<open>h\<close> at one position is the slice of the
  projected row that starts at \<open>(t * num_heads + h) * head_dim\<close>.
\<close>

definition head_slice :: "MultiHeadSelfAttention \<Rightarrow> nat \<Rightarrow> nat \<Rightarrow> vec \<Rightarrow> vec" where
  "head_slice mh t h row =
     take (mh_head_dim mh) (drop ((t * mh_num_heads mh + h) * mh_head_dim mh) row)"

definition attn_scores :: "MultiHeadSelfAttention \<Rightarrow> vec list \<Rightarrow> vec list \<Rightarrow> tensor2" where
  "attn_scores mh qs ks =
     map (\<lambda>q. map (\<lambda>k. fdiv (dot q k) (Fin (sqrt (real (mh_head_dim mh))))) ks) qs"

text \<open>\<open>scores.masked_fill(mask == 0, float('-inf'))\<close>, the mask row broadcast over queries.\<close>

definition masked_fill :: "tensor2 \<Rightarrow> bool list option \<Rightarrow> tensor2" where
  "masked_fill scores msk =
     (case msk of None \<Rightarrow> scores
      | Some ms \<Rightarrow> map (\<lambda>row. map2 (\<lambda>sc m. if m then sc else NInf) row ms) scores)"

definition attn_weights :: "tensor2 \<Rightarrow> tensor2" where
  "attn_weights scores = map (\<lambda>row. map nan_to_num (softmax row)) scores"

text \<open>\<open>torch.matmul(attn, v)\<close> for one head: each query's weighted sum of the values.\<close>

definition attn_apply :: "nat \<Rightarrow> tensor2 \<Rightarrow> vec list \<Rightarrow> vec list" where
  "attn_apply d attn vs =
     map (\<lambda>a. map (\<lambda>i. fsum (map2 (\<lambda>w v. fmul w (v ! i)) a vs)) [0..<d]) attn"

text \<open>One batch row: all heads, recombined per position, then the output projection.\<close>

definition attention_row ::
  "MultiHeadSelfAttention \<Rightarrow> vec list \<Rightarrow> bool list option \<Rightarrow> vec list" where
  "attention_row mh xs msk =
     (let qkv = map (Linear_forward (mh_qkv mh)) xs;
          heads = map (\<lambda>h.
                    let q = map (head_slice mh 0 h) qkv;
                        k = map (head_slice mh 1 h) qkv;
                        v = map (head_slice mh 2 h) qkv;
                        scores = masked_fill (attn_scores mh q k) msk;
                        attn = attn_weights scores
                    in attn_apply (mh_head_dim mh) attn v) [0..<mh_num_heads mh];
          out = map (\<lambda>s. concat (map (\<lambda>hd_out. hd_out ! s) heads)) [0..<length xs]
      in map (Linear_forward (mh_proj mh)) out)"

text \<open>
  \<open>MultiHeadSelfAttention.forward\<close>.  A mask must have shape \<open>[batch, seq]\<close>; the
  broadcasting of any other shape is not modelled and is refused here.
\<close>

definition MultiHeadSelfAttention_forward ::
  "MultiHeadSelfAttention \<Rightarrow> tensor3 \<Rightarrow> bool list list option \<Rightarrow> error + tensor3" where
  "MultiHeadSelfAttention_forward mh x msk =
     (if dim2 x \<noteq> mh_embed_dim mh then Inl AssertionError
      else case msk of
             None \<Rightarrow> Inr (map (\<lambda>xs. attention_row mh xs None) x)
           | Some ms \<Rightarrow>
               if \<not> shape2 ms (length x) (dim1 x) then Inl RuntimeError
               else Inr (map2 (\<lambda>xs m. attention_row mh xs (Some m)) x ms))"

section \<open>TransformerEncoderLayer and TransformerEncoder\<close>

text \<open>The activation of the feed-forward network, \<open>nn.GELU\<close>, is a parameter of the layer.\<close>

record TransformerEncoderLayer =
  el_norm1 :: LayerNorm
  el_norm2 :: LayerNorm
  el_attn :: MultiHeadSelfAttention
  el_fc1 :: Linear
  el_gelu :: "fl \<Rightarrow> fl"
  el_fc2 :: Linear

definition mlp :: "TransformerEncoderLayer \<Rightarrow> vec \<Rightarrow> vec" where
  "mlp l v = Linear_forward (el_fc2 l) (map (el_gelu l) (Linear_forward (el_fc1 l) v))"

definition tadd :: "tensor3 \<Rightarrow> tensor3 \<Rightarrow> tensor3" where
  "tadd x y = map2 (map2 (map2 fadd)) x y"

definition TransformerEncoderLayer_forward ::
  "TransformerEncoderLayer \<Rightarrow> tensor3 \<Rightarrow> bool list list option \<Rightarrow> error + tensor3" where
  "TransformerEncoderLayer_forward l x msk =
     (if dim2 x \<noteq> ln_normalized_shape (el_norm1 l) then Inl AssertionError
      else case MultiHeadSelfAttention_forward (el_attn l)
                  (map (map (LayerNorm_forward (el_norm1 l))) x) msk of
             Inl e \<Rightarrow> Inl e
           | Inr a \<Rightarrow>
               let x1 = tadd x a
               in Inr (tadd x1 (map (map (\<lambda>v. mlp l (LayerNorm_forward (el_norm2 l) v))) x1)))"

record TransformerEncoder =
  enc_layers :: "TransformerEncoderLayer list"
  enc_norm :: LayerNorm

definition TransformerEncoder_init ::
  "TransformerEncoderLayer list \<Rightarrow> LayerNorm \<Rightarrow> error + TransformerEncoder" where
  "TransformerEncoder_init layers final_norm =
     (if \<not> 0 < length layers then Inl AssertionError
      else Inr \<lparr>enc_layers = layers, enc_norm = final_norm\<rparr>)"

fun run_layers ::
  "TransformerEncoderLayer list \<Rightarrow> tensor3 \<Rightarrow> bool list list option \<Rightarrow> error + tensor3" where
  "run_layers [] x msk = Inr x"
| "run_layers (l # ls) x msk =
     (case TransformerEncoderLayer_forward l x msk of
        Inl e \<Rightarrow> Inl e
      | Inr y \<Rightarrow> run_layers ls y msk)"

definition TransformerEncoder_forward ::
  "TransformerEncoder \<Rightarrow> tensor3 \<Rightarrow> bool list list option \<Rightarrow> error + tensor3" where
  "TransformerEncoder_forward enc x msk =
     (case enc_layers enc of
        [] \<Rightarrow> Inl IndexError
      | l0 # _ \<Rightarrow>
          if dim2 x \<noteq> ln_normalized_shape (el_norm1 l0) then Inl AssertionError
          else (case run_layers (enc_layers enc) x msk of
                  Inl e \<Rightarrow> Inl e
                | Inr y \<Rightarrow> Inr (map (map (LayerNorm_forward (enc_norm enc))) y)))"

section \<open>TemporalTransformerEncoder\<close>

record TemporalTransformerEncoder =
  te_transformer_encoder :: TransformerEncoder
  te_norm :: LayerNorm

text \<open>\<open>x.sum(dim=1)\<close> of one batch row of width \<open>d\<close>: the sum over the positions.\<close>

definition sum_positions :: "nat \<Rightarrow> vec list \<Rightarrow> vec" where
  "sum_positions d rows = map (\<lambda>j. fsum (map (\<lambda>r. r ! j) rows)) [0..<d]"

text \<open>
  The aggregation with a mask: multiply every position by its mask value, sum over the
  positions, divide by the number of valid positions clamped to at least one.
\<close>

definition masked_mean :: "nat \<Rightarrow> vec list \<Rightarrow> bool list \<Rightarrow> vec" where
  "masked_mean d rows ms =
     (let z = map2 (\<lambda>v m. map (\<lambda>a. fmul a (mask_val m)) v) rows ms;
          lengths = max 1 (count_valid ms)
      in map (\<lambda>a. fdiv a (Fin (real lengths))) (sum_positions d z))"

definition mean_positions :: "nat \<Rightarrow> vec list \<Rightarrow> vec" where
  "mean_positions d rows =
     map (\<lambda>a. fdiv a (Fin (real (length rows)))) (sum_positions d rows)"

text \<open>
  The encoder followed by \<open>self.norm\<close>: the post-encoder, post-normalization vectors
  that the aggregation works on.
\<close>

definition encode_and_norm ::
  "TemporalTransformerEncoder \<Rightarrow> tensor3 \<Rightarrow> bool list list option \<Rightarrow> error + tensor3" where
  "encode_and_norm te x msk =
     (case TransformerEncoder_forward (te_transformer_encoder te) x msk of
        Inl e \<Rightarrow> Inl e
      | Inr y0 \<Rightarrow> Inr (map (map (LayerNorm_forward (te_norm te))) y0))"

definition TemporalTransformerEncoder_forward ::
  "TemporalTransformerEncoder \<Rightarrow> tensor3 \<Rightarrow> bool list list option \<Rightarrow> error + tensor2" where
  "TemporalTransformerEncoder_forward te x msk =
     (if \<not> (case msk of None \<Rightarrow> True
              | Some ms \<Rightarrow> length ms = length x \<and> dim1 ms = dim1 x)
        then Inl AssertionError
      else case encode_and_norm te x msk of
             Inl e \<Rightarrow> Inl e
           | Inr y \<Rightarrow>
               (case msk of
                  Some ms \<Rightarrow> Inr (map2 (masked_mean (dim2 x)) y ms)
                | None \<Rightarrow> Inr (map (mean_positions (dim2 x)) y)))"

section \<open>VisionTransformerWithTemporal\<close>

record VisionTransformerWithTemporal =
  vt_patch_embed :: PatchEmbedding
  vt_use_cls_token :: bool
  vt_cls_token :: vec
  vt_pos_encoder :: PositionalEncoding
  vt_transformer_encoder :: TransformerEncoder
  vt_norm :: LayerNorm
  vt_temporal_encoder :: TemporalTransformerEncoder
  vt_head :: Linear

text \<open>\<open>x.view(batch_size, seq_len, -1)\<close>: the rows regrouped into clips of \<open>seq_len\<close>.\<close>

definition regroup :: "nat \<Rightarrow> nat \<Rightarrow> 'a list \<Rightarrow> 'a list list" where
  "regroup batch_size seq_len f =
     map (\<lambda>b. take seq_len (drop (b * seq_len) f)) [0..<batch_size]"

text \<open>\<open>x[:, 0]\<close>: the first position of every row; an empty row has none.\<close>

fun first_position :: "'a list list \<Rightarrow> error + 'a list" where
  "first_position [] = Inr []"
| "first_position ([] # _) = Inl IndexError"
| "first_position ((a # _) # rest) =
     (case first_position rest of Inl e \<Rightarrow> Inl e | Inr r \<Rightarrow> Inr (a # r))"

definition any_nan :: "tensor3 \<Rightarrow> bool" where
  "any_nan x = list_ex (list_ex (list_ex isnan)) x"

text \<open>
  The first part of \<open>VisionTransformerWithTemporal.forward\<close>, up to and including
  \<open>self.norm\<close>: the image-size assertion, the flattening view (which needs a square
  frame), patch embedding, the class token, positional encoding, (identity) dropout, the
  spatial encoder called without a mask, and the final normalization.
\<close>

definition spatial_encode :: "VisionTransformerWithTemporal \<Rightarrow> tensor5 \<Rightarrow> error + tensor3" where
  "spatial_encode vt x =
     (if int (dim3 x) \<noteq> pe_img_size (vt_patch_embed vt) then Inl AssertionError
      else if dim4 x \<noteq> dim3 x then Inl RuntimeError
      else case PatchEmbedding_forward (vt_patch_embed vt) (concat x) of
             Inl e \<Rightarrow> Inl e
           | Inr p \<Rightarrow>
              (if vt_use_cls_token vt \<and> length (vt_cls_token vt) \<noteq> dim2 p then Inl RuntimeError
               else case PositionalEncoding_forward (vt_pos_encoder vt)
                           (if vt_use_cls_token vt then map (\<lambda>s. vt_cls_token vt # s) p else p) of
                      Inl e \<Rightarrow> Inl e
                    | Inr q \<Rightarrow>
                       (case TransformerEncoder_forward (vt_transformer_encoder vt) q None of
                          Inl e \<Rightarrow> Inl e
                        | Inr r \<Rightarrow> Inr (map (map (LayerNorm_forward (vt_norm vt))) r))))"

text \<open>
  The rest of the forward pass, from the per-frame features on: regrouping into clips,
  the temporal encoder with the sequence mask, and the classification head.
\<close>

definition temporal_classify ::
  "VisionTransformerWithTemporal \<Rightarrow> nat \<Rightarrow> nat \<Rightarrow> tensor2 \<Rightarrow> bool list list option
    \<Rightarrow> error + tensor2" where
  "temporal_classify vt batch_size seq_len f seq_mask =
     (case TemporalTransformerEncoder_forward (vt_temporal_encoder vt)
             (regroup batch_size seq_len f) seq_mask of
        Inl e \<Rightarrow> Inl e
      | Inr h \<Rightarrow> Inr (map (Linear_forward (vt_head vt)) h))"

text \<open>
  \<open>VisionTransformerWithTemporal.forward\<close>.  The argument \<open>img_mask\<close> is received
  and not used: the lines that would pass it to the spatial encoder are commented out.
\<close>

definition VisionTransformerWithTemporal_forward ::
  "VisionTransformerWithTemporal \<Rightarrow> tensor5 \<Rightarrow> bool list list option \<Rightarrow> bool list list option
    \<Rightarrow> error + tensor2" where
  "VisionTransformerWithTemporal_forward vt x img_mask seq_mask =
     (case spatial_encode vt x of
        Inl e \<Rightarrow> Inl e
      | Inr y \<Rightarrow>
          if any_nan y then Inl (ValueError ''NaN detected after Transformer encoder.'')
          else if vt_use_cls_token vt then
            (case first_position y of
               Inl e \<Rightarrow> Inl e
             | Inr f \<Rightarrow> temporal_classify vt (length x) (dim1 x) f seq_mask)
          else temporal_classify vt (length x) (dim1 x)
                 (map (mean_positions (dim2 y)) y) seq_mask)"

section \<open>VisionTransformer with a pretrained backbone\<close>

text \<open>
  The backbone \<open>vit\<close> (frames to feature vectors) and the recurrent layer
  \<open>temporal_model\<close> are supplied by libraries and are parameters here.  On a packed
  batch the recurrent layer runs over each sequence's own valid prefix, so it is a
  function from one sequence of inputs to the sequence of its hidden states;
  \<open>lstm_output_size\<close> is the width of a hidden state.
\<close>

record VisionTransformer =
  vit :: "tensor4 \<Rightarrow> error + tensor2"
  use_temporal_model :: bool
  temporal_model :: "vec list \<Rightarrow> vec list"
  lstm_output_size :: nat
  temporal_fc :: Linear
  classifier :: Linear

text \<open>
  \<open>lengths.sort(descending=True)\<close> returns the indices that sort the lengths in
  descending order; \<open>sorted_idx.sort()\<close> returns the indices that sort the indices.
\<close>

definition argsort_descending :: "nat list \<Rightarrow> nat list" where
  "argsort_descending lengths = sort_key (\<lambda>i. - int (lengths ! i)) [0..<length lengths]"

definition argsort :: "nat list \<Rightarrow> nat list" where
  "argsort idx = sort_key (\<lambda>j. idx ! j) [0..<length idx]"

text \<open>
  The recurrent aggregation for a given sorting permutation \<open>sorted_idx\<close>:
  \<open>pack_padded_sequence\<close> with \<open>enforce_sorted=True\<close> refuses a length that is
  zero or exceeds the number of frames and an order that is not descending; the layer
  runs on each valid prefix; \<open>pad_packed_sequence\<close> pads with zero vectors up to
  \<open>total_length\<close>; the original order is restored; the output at the last valid index
  (or at the last index when there is no mask) is selected.
\<close>

definition pack_and_run ::
  "VisionTransformer \<Rightarrow> nat \<Rightarrow> tensor3 \<Rightarrow> nat list \<Rightarrow> error + tensor3" where
  "pack_and_run m num_frames x_sorted lengths_sorted =
     (if list_ex (\<lambda>n. n = 0 \<or> num_frames < n) lengths_sorted
         \<or> \<not> sorted (rev lengths_sorted) then Inl RuntimeError
      else Inr (map2 (\<lambda>xs n.
                  let out = temporal_model m (take n xs)
                  in out @ replicate (num_frames - length out)
                             (replicate (lstm_output_size m) (Fin 0)))
                x_sorted lengths_sorted))"

definition recurrent_last_outputs ::
  "VisionTransformer \<Rightarrow> nat list \<Rightarrow> nat \<Rightarrow> tensor3 \<Rightarrow> nat list \<Rightarrow> bool \<Rightarrow> error + tensor2" where
  "recurrent_last_outputs m sorted_idx num_frames x lengths has_mask =
     (if list_ex (\<lambda>i. length x \<le> i) sorted_idx then Inl IndexError
      else case pack_and_run m num_frames (map (\<lambda>i. x ! i) sorted_idx)
                  (map (\<lambda>i. lengths ! i) sorted_idx) of
             Inl e \<Rightarrow> Inl e
           | Inr output_sorted \<Rightarrow>
              (let output = map (\<lambda>j. output_sorted ! j) (argsort sorted_idx)
               in if has_mask
                  then Inr (map2 (\<lambda>out n. out ! (max 1 n - 1)) output lengths)
                  else Inr (map (\<lambda>out. out ! (num_frames - 1)) output)))"

text \<open>
  \<open>VisionTransformer.forward\<close>.  The argument \<open>img_mask\<close> is received and not used.
  A sequence mask must have one row per clip.
\<close>

definition VisionTransformer_forward ::
  "VisionTransformer \<Rightarrow> tensor5 \<Rightarrow> bool list list option \<Rightarrow> bool list list option
    \<Rightarrow> error + tensor2" where
  "VisionTransformer_forward m x img_mask seq_mask =
     (let batch_size = length x; num_frames = dim1 x in
      case vit m (concat x) of
        Inl e \<Rightarrow> Inl e
      | Inr feats \<Rightarrow>
         (let feature_dim = dim1 feats;
              x = regroup batch_size num_frames feats
          in if (case seq_mask of None \<Rightarrow> False | Some ms \<Rightarrow> length ms \<noteq> batch_size)
               then Inl RuntimeError
             else if use_temporal_model m then
               (let lengths = (case seq_mask of
                                 None \<Rightarrow> replicate batch_size num_frames
                               | Some ms \<Rightarrow> map count_valid ms)
                in case recurrent_last_outputs m (argsort_descending lengths) num_frames x
                          lengths (seq_mask \<noteq> None) of
                     Inl e \<Rightarrow> Inl e
                   | Inr last_outputs \<Rightarrow> Inr (map (Linear_forward (temporal_fc m)) last_outputs))
             else
               (case seq_mask of
                  Some ms \<Rightarrow>
                    if dim1 ms \<noteq> num_frames then Inl RuntimeError
                    else Inr (map (Linear_forward (classifier m))
                                (map2 (masked_mean feature_dim) x ms))
                | None \<Rightarrow>
                    Inr (map (Linear_forward (classifier m))
                           (map (mean_positions feature_dim) x)))))"

section \<open>Finite values and well-shaped parameters\<close>

text \<open>
  Predicates used in the statements: a vector or matrix all of whose entries are finite,
  a vector of zeros, and a linear layer whose weight and bias have the shapes
  \<open>[out, in]\<close> and \<open>[out]\<close> that \<open>nn.Linear(in, out)\<close> allocates.
\<close>

definition finite_vec :: "vec \<Rightarrow> bool" where
  "finite_vec v = list_all is_finite v"



definition Linear_wf :: "Linear \<Rightarrow> nat \<Rightarrow> nat \<Rightarrow> bool" where
  "Linear_wf l n_out n_in \<longleftrightarrow> shape2 (lin_weight l) n_out n_in \<and> length (lin_bias l) = n_out"

definition LayerNorm_wf :: "LayerNorm \<Rightarrow> nat \<Rightarrow> bool" where
  "LayerNorm_wf lnorm d \<longleftrightarrow>
     ln_normalized_shape lnorm = d \<and> length (ln_weight lnorm) = d \<and> length (ln_bias lnorm) = d"

definition MultiHeadSelfAttention_wf :: "MultiHeadSelfAttention \<Rightarrow> nat \<Rightarrow> bool" where
  "MultiHeadSelfAttention_wf mh d \<longleftrightarrow>
     mh_embed_dim mh = d \<and> mh_num_heads mh * mh_head_dim mh = d \<and>
     Linear_wf (mh_qkv mh) (3 * d) d \<and> Linear_wf (mh_proj mh) d d"

definition TransformerEncoderLayer_wf :: "TransformerEncoderLayer \<Rightarrow> nat \<Rightarrow> bool" where
  "TransformerEncoderLayer_wf l d \<longleftrightarrow>
     LayerNorm_wf (el_norm1 l) d \<and> LayerNorm_wf (el_norm2 l) d \<and>
     MultiHeadSelfAttention_wf (el_attn l) d \<and>
     Linear_wf (el_fc1 l) (length (lin_bias (el_fc1 l))) d \<and>
     Linear_wf (el_fc2 l) d (length (lin_bias (el_fc1 l)))"

definition TransformerEncoder_wf :: "TransformerEncoder \<Rightarrow> nat \<Rightarrow> bool" where
  "TransformerEncoder_wf enc d \<longleftrightarrow>
     enc_layers enc \<noteq> [] \<and> list_all (\<lambda>l. TransformerEncoderLayer_wf l d) (enc_layers enc) \<and>
     LayerNorm_wf (enc_norm enc) d"

definition TemporalTransformerEncoder_wf :: "TemporalTransformerEncoder \<Rightarrow> nat \<Rightarrow> bool" where
  "TemporalTransformerEncoder_wf te d \<longleftrightarrow>
     TransformerEncoder_wf (te_transformer_encoder te) d \<and> LayerNorm_wf (te_norm te) d"

text \<open>
  The invariant that \<open>VisionTransformerWithTemporal.__init__\<close> establishes: the patch
  embedding and the positional table are constructed from the configuration (the table
  has one more row when the class token is used), and every other layer has the
  embedding width.
\<close>

definition VisionTransformerWithTemporal_wf ::
  "VisionTransformerWithTemporal \<Rightarrow> int \<Rightarrow> int \<Rightarrow> int \<Rightarrow> int \<Rightarrow> nat
    \<Rightarrow> (nat \<Rightarrow> nat \<Rightarrow> nat \<Rightarrow> nat \<Rightarrow> fl) \<Rightarrow> (nat \<Rightarrow> fl) \<Rightarrow> bool" where
  "VisionTransformerWithTemporal_wf vt img_size patch_size in_channels embed_dim num_classes
       winit binit \<longleftrightarrow>
     0 < img_size \<and> 0 < patch_size \<and> 0 < in_channels \<and> 0 < embed_dim \<and>
     PatchEmbedding_init img_size patch_size in_channels embed_dim winit binit
       = Inr (vt_patch_embed vt) \<and>
     PositionalEncoding_init embed_dim
       ((img_size div patch_size) ^ 2 + (if vt_use_cls_token vt then 1 else 0))
       = Inr (vt_pos_encoder vt) \<and>
     length (vt_cls_token vt) = nat embed_dim \<and>
     TransformerEncoder_wf (vt_transformer_encoder vt) (nat embed_dim) \<and>
     LayerNorm_wf (vt_norm vt) (nat embed_dim) \<and>
     TemporalTransformerEncoder_wf (vt_temporal_encoder vt) (nat embed_dim) \<and>
     Linear_wf (vt_head vt) num_classes (nat embed_dim)"

text \<open>
  For the aggregation over a clip: the rows at the valid positions, and the condition
  that every row at a masked position is finite.
\<close>

definition valid_rows :: "vec list \<Rightarrow> bool list \<Rightarrow> vec list" where
  "valid_rows rows ms = map fst (filter snd (zip rows ms))"

definition masked_finite :: "vec list \<Rightarrow> bool list \<Rightarrow> bool" where
  "masked_finite rows ms = list_all (\<lambda>(r, m). m \<or> finite_vec r) (zip rows ms)"

text \<open>
  The aggregation in the words of the specification: the sum of the vectors at the valid
  positions divided by the number of valid positions, clamped to at least one.
\<close>

definition valid_mean :: "nat \<Rightarrow> vec list \<Rightarrow> bool list \<Rightarrow> vec" where
  "valid_mean d rows ms =
     map (\<lambda>a. fdiv a (Fin (real (max 1 (count_valid ms)))))
       (sum_positions d (valid_rows rows ms))"

section \<open>A small model instance\<close>

text \<open>
  Concrete parameters for the examples: linear layers with zero weights and a given bias,
  normalization layers with zero scale and a given shift, one attention head.  The
  activation stands for \<open>nn.GELU\<close> at the only arguments the examples reach, zero and
  not-a-number, where it agrees with the identity.
\<close>

definition const_linear :: "nat \<Rightarrow> vec \<Rightarrow> Linear" where
  "const_linear n_in b = \<lparr>lin_weight = replicate (length b) (replicate n_in (Fin 0)), lin_bias = b\<rparr>"

definition const_norm :: "vec \<Rightarrow> LayerNorm" where
  "const_norm b = \<lparr>ln_normalized_shape = length b, ln_weight = replicate (length b) (Fin 0),
                   ln_bias = b\<rparr>"

definition tiny_layer :: "nat \<Rightarrow> TransformerEncoderLayer" where
  "tiny_layer d =
     \<lparr>el_norm1 = const_norm (replicate d (Fin 0)), el_norm2 = const_norm (replicate d (Fin 0)),
      el_attn = \<lparr>mh_embed_dim = d, mh_num_heads = 1, mh_head_dim = d,
                 mh_qkv = const_linear d (replicate (3 * d) (Fin 0)),
                 mh_proj = const_linear d (replicate d (Fin 0))\<rparr>,
      el_fc1 = const_linear d (replicate d (Fin 0)),
      el_gelu = (\<lambda>a. a),
      el_fc2 = const_linear d (replicate d (Fin 0))\<rparr>"

definition tiny_encoder :: "nat \<Rightarrow> vec \<Rightarrow> TransformerEncoder" where
  "tiny_encoder d b = \<lparr>enc_layers = [tiny_layer d], enc_norm = const_norm b\<rparr>"

definition tiny_temporal :: "vec \<Rightarrow> TemporalTransformerEncoder" where
  "tiny_temporal b =
     \<lparr>te_transformer_encoder = tiny_encoder (length b) b, te_norm = const_norm b\<rparr>"

definition tiny_vt :: VisionTransformerWithTemporal where
  "tiny_vt =
     \<lparr>vt_patch_embed = projr (PatchEmbedding_init 1 1 1 2 (\<lambda>e c ky kx. Fin 0) (\<lambda>e. Fin 0)),
      vt_use_cls_token = False,
      vt_cls_token = [Fin 0, Fin 0],
      vt_pos_encoder = projr (PositionalEncoding_init 2 1),
      vt_transformer_encoder = tiny_encoder 2 [Fin 0, Fin 0],
      vt_norm = const_norm [Fin 0, Fin 0],
      vt_temporal_encoder = tiny_temporal [Fin 0, Fin 0],
      vt_head = const_linear 2 [Fin 1, Fin 2]\<rparr>"

section \<open>Shapes\<close>

lemma shape2_dim1: "shape2 x a b \<Longrightarrow> 0 < a \<Longrightarrow> dim1 x = b"
  by (cases x) (auto simp add: shape2_def shape1_def dim1_def)

lemma shape3_dim1: "shape3 x a b c \<Longrightarrow> 0 < a \<Longrightarrow> dim1 x = b"
  by (cases x) (auto simp add: shape3_def shape2_def dim1_def)

lemma shape3_dim2: "shape3 x a b c \<Longrightarrow> 0 < a \<Longrightarrow> 0 < b \<Longrightarrow> dim2 x = c"
  by (cases x) (auto simp add: shape3_def dim2_def shape2_dim1)

lemma shape4_dim1: "shape4 x a b c d \<Longrightarrow> 0 < a \<Longrightarrow> dim1 x = b"
  by (cases x) (auto simp add: shape4_def shape3_def dim1_def)

lemma shape4_dim2: "shape4 x a b c d \<Longrightarrow> 0 < a \<Longrightarrow> 0 < b \<Longrightarrow> dim2 x = c"
  by (cases x) (auto simp add: shape4_def dim2_def shape3_dim1)

lemma shape4_dim3: "shape4 x a b c d \<Longrightarrow> 0 < a \<Longrightarrow> 0 < b \<Longrightarrow> 0 < c \<Longrightarrow> dim3 x = d"
  by (cases x) (auto simp add: shape4_def dim3_def shape3_dim2)

lemma length_concat_rect: "list_all (\<lambda>r. length r = b) m \<Longrightarrow> length (concat m) = length m * b"
  by (induction m) auto

lemma shape3_mapI:
  "length y = a \<Longrightarrow> (\<And>r. r \<in> set y \<Longrightarrow> shape2 (f r) b c) \<Longrightarrow> shape3 (map f y) a b c"
  by (simp add: shape3_def list_all_iff)

lemma concat_shape: "shape2 m c d \<Longrightarrow> shape1 (concat m) (c * d)"
  using length_concat_rect [of d m] by (simp add: shape2_def shape1_def)

lemma flatten2_shape: "shape4 y a b c d \<Longrightarrow> shape3 (flatten2 y) a b (c * d)"
proof -
  assume y: "shape4 y a b c d"
  have "shape2 (map concat m) b (c * d)" if "shape3 m b c d" for m :: "'a list list list"
    using that by (simp add: shape3_def shape2_def [of "map concat m"] list_all_iff concat_shape)
  moreover from y have "length y = a" "\<forall>m\<in>set y. shape3 m b c d"
    by (simp_all add: shape4_def list_all_iff)
  ultimately show ?thesis
    unfolding flatten2_def by (intro shape3_mapI) auto
qed

lemma transpose_rows_shape: "shape2 m a b \<Longrightarrow> 0 < a \<Longrightarrow> shape2 (transpose_rows m) b a"
  by (simp add: transpose_rows_def shape2_dim1) (simp add: shape2_def shape1_def list_all_iff)

lemma transpose12_shape: "shape3 z a b c \<Longrightarrow> 0 < b \<Longrightarrow> shape3 (transpose12 z) a c b"
  by (auto simp add: shape3_def transpose12_def list_all_iff transpose_rows_shape)

lemma Conv2d_forward_shape:
  assumes cv: "Conv2d_init c e k k winit binit = Inr cv"
    and pos: "0 < c" "0 < k" "0 < B" "0 < h"
    and x: "shape4 x B (nat c) (h * nat k) (h * nat k)"
  shows "\<exists>y. Conv2d_forward cv x = Inr y \<and> shape4 y B (nat e) h h"
proof -
  from cv have e: "0 \<le> e" and cvd: "cv = \<lparr>cv_in_channels = c, cv_out_channels = e,
                cv_kernel_size = k, cv_stride = k,
                cv_weight =
                  map (\<lambda>e. map (\<lambda>c. map (\<lambda>ky. map (\<lambda>kx. winit e c ky kx)
                    [0..<nat k]) [0..<nat k]) [0..<nat c])
                    [0..<nat e],
                cv_bias = map binit [0..<nat e]\<rparr>"
    by (auto simp add: Conv2d_init_def split: if_splits)
  have d1: "dim1 x = nat c" using x pos by (simp add: shape4_dim1)
  have d2: "dim2 x = h * nat k" using x pos by (simp add: shape4_dim2)
  have d3: "dim3 x = h * nat k" using x pos by (simp add: shape4_dim3)
  have oh: "Suc ((h * nat k - nat k) div nat k) = h"
  proof -
    obtain h' where h': "h = Suc h'" using pos by (cases h) auto
    show ?thesis using pos by (simp add: h')
  qed
  have ge: "\<not> h * nat k < nat k" using pos by (cases h) auto
  show ?thesis
    using pos x ge
    by (simp add: Conv2d_forward_def Let_def d1 d2 d3 oh cvd)
       (simp add: shape4_def shape3_def shape2_def shape1_def list_all_iff split_beta)
qed

section \<open>Construction of PatchEmbedding\<close>

lemma Conv2d_init_ok:
  "0 \<le> c \<Longrightarrow> 0 \<le> e \<Longrightarrow> 0 \<le> k \<Longrightarrow> \<exists>cv. Conv2d_init c e k s winit binit = Inr cv"
  by (simp add: Conv2d_init_def)

text \<open>
  C8.  Constructing a PatchEmbedding whose image size is not evenly divisible by the patch
  size raises an error at construction (a zero patch size raises too, from the floor
  division), so no object exists on which forward could fail later; for a divisible pair
  with a positive patch size (and non-negative channel counts) construction succeeds.
\<close>

theorem PatchEmbedding_init_divisibility:
  "(\<not> (patch_size \<noteq> 0 \<and> patch_size dvd img_size) \<longrightarrow>
      isl (PatchEmbedding_init img_size patch_size in_channels embed_dim winit binit)) \<and>
   (0 < patch_size \<and> patch_size dvd img_size \<and> 0 \<le> in_channels \<and> 0 \<le> embed_dim \<longrightarrow>
      (\<exists>pe. PatchEmbedding_init img_size patch_size in_channels embed_dim winit binit = Inr pe
         \<and> pe_img_size pe = img_size \<and> pe_patch_size pe = patch_size))"
  by (auto simp add: PatchEmbedding_init_def Conv2d_init_def mod_eq_0_iff_dvd)

theorem PatchEmbedding_init_divisibility_witness:
  "isl (PatchEmbedding_init 224 15 3 768 (\<lambda>e c ky kx. Fin 0) (\<lambda>e. Fin 0)) \<and>
   (\<exists>pe. PatchEmbedding_init 224 16 3 768 (\<lambda>e c ky kx. Fin 0) (\<lambda>e. Fin 0) = Inr pe
      \<and> pe_img_size pe = 224 \<and> pe_patch_size pe = 16)"
  using PatchEmbedding_init_divisibility [of 15 224 3 768 "\<lambda>e c ky kx. Fin 0" "\<lambda>e. Fin 0"]
        PatchEmbedding_init_divisibility [of 16 224 3 768 "\<lambda>e c ky kx. Fin 0" "\<lambda>e. Fin 0"]
  by simp

section \<open>The forward pass of PatchEmbedding\<close>

lemma PatchEmbedding_init_fields:
  assumes "PatchEmbedding_init img_size patch_size in_channels embed_dim winit binit = Inr pe"
  shows "pe_img_size pe = img_size \<and> patch_size \<noteq> 0 \<and> patch_size dvd img_size \<and>
         Conv2d_init in_channels embed_dim patch_size patch_size winit binit = Inr (pe_proj pe)"
  using assms
  by (auto simp add: PatchEmbedding_init_def mod_eq_0_iff_dvd split: if_splits sum.splits)

lemma Conv2d_forward_channels:
  assumes cv: "Conv2d_init c e k s winit binit = Inr cv"
    and x: "shape4 x B C H W" "0 < B" "int C \<noteq> c"
  shows "Conv2d_forward cv x = Inl RuntimeError"
proof -
  from cv have "cv_in_channels cv = c"
    by (auto simp add: Conv2d_init_def split: if_splits)
  moreover have "dim1 x = C" using x by (simp add: shape4_dim1)
  ultimately show ?thesis using x by (simp add: Conv2d_forward_def Let_def)
qed

lemma PatchEmbedding_forward_ok:
  assumes init: "PatchEmbedding_init img_size patch_size in_channels embed_dim winit binit = Inr pe"
    and pos: "0 < img_size" "0 < patch_size" "0 < in_channels" "0 < embed_dim" "0 < B"
    and x: "shape4 x B (nat in_channels) (nat img_size) (nat img_size)"
  shows "\<exists>y. PatchEmbedding_forward pe x = Inr y \<and>
             shape3 y B (nat ((img_size div patch_size) ^ 2)) (nat embed_dim)"
proof -
  define h where "h = nat (img_size div patch_size)"
  from PatchEmbedding_init_fields [OF init]
  have sz: "pe_img_size pe = img_size" and dv: "patch_size dvd img_size"
    and cv: "Conv2d_init in_channels embed_dim patch_size patch_size winit binit = Inr (pe_proj pe)"
    by simp_all
  from dv pos have "img_size = (img_size div patch_size) * patch_size" by simp
  moreover from pos have "0 \<le> img_size div patch_size" by (simp add: pos_imp_zdiv_nonneg_iff)
  moreover note nn = this
  ultimately have img: "nat img_size = h * nat patch_size"
    unfolding h_def by (metis nat_mult_distrib)
  with pos have hpos: "0 < h" by (cases h) auto
  from Conv2d_forward_shape [OF cv pos(3) pos(2) pos(5) hpos] x img
  obtain y where y: "Conv2d_forward (pe_proj pe) x = Inr y" "shape4 y B (nat embed_dim) h h"
    by auto
  have d2: "dim2 x = nat img_size" using x pos by (simp add: shape4_dim2)
  have d3: "dim3 x = nat img_size" using x pos by (simp add: shape4_dim3)
  have "shape3 (transpose12 (flatten2 y)) B (h * h) (nat embed_dim)"
    using y(2) pos by (simp add: flatten2_shape transpose12_shape)
  moreover have "h * h = nat ((img_size div patch_size) ^ 2)"
    unfolding h_def using nn by (simp add: power2_eq_square nat_mult_distrib)
  ultimately show ?thesis
    using y(1) pos by (simp add: PatchEmbedding_forward_def d2 d3 sz)
qed

text \<open>
  C7.  For a PatchEmbedding constructed with positive sizes (so the image size is a
  multiple of the patch size) and an input of shape
  \<open>[B, in_channels, image_size, image_size]\<close>, forward returns a tensor of shape
  \<open>[B, (image_size / patch_size)\<^sup>2, embed_dim]\<close>.
\<close>

theorem PatchEmbedding_forward_shape:
  assumes "PatchEmbedding_init img_size patch_size in_channels embed_dim winit binit = Inr pe"
    and "0 < img_size" "0 < patch_size" "0 < in_channels" "0 < embed_dim" "0 < B"
    and "shape4 x B (nat in_channels) (nat img_size) (nat img_size)"
  shows "\<exists>y. PatchEmbedding_forward pe x = Inr y \<and>
             shape3 y B (nat ((img_size div patch_size) ^ 2)) (nat embed_dim)"
  using assms by (rule PatchEmbedding_forward_ok)

theorem PatchEmbedding_forward_shape_witness:
  "\<exists>y. PatchEmbedding_forward
          (projr (PatchEmbedding_init 4 2 1 3 (\<lambda>e c ky kx. Fin 1) (\<lambda>e. Fin 0)))
          [[[[Fin 1, Fin 2, Fin 3, Fin 4], [Fin 5, Fin 6, Fin 7, Fin 8],
             [Fin 1, Fin 2, Fin 3, Fin 4], [Fin 5, Fin 6, Fin 7, Fin 8]]]] = Inr y \<and>
       shape3 y 1 4 3"
  using PatchEmbedding_forward_shape [of 4 2 1 3 "\<lambda>e c ky kx. Fin 1" "\<lambda>e. Fin 0"
      "projr (PatchEmbedding_init 4 2 1 3 (\<lambda>e c ky kx. Fin 1) (\<lambda>e. Fin 0))" 1
      "[[[[Fin 1, Fin 2, Fin 3, Fin 4], [Fin 5, Fin 6, Fin 7, Fin 8],
             [Fin 1, Fin 2, Fin 3, Fin 4], [Fin 5, Fin 6, Fin 7, Fin 8]]]]"]
  by (simp add: PatchEmbedding_init_def Conv2d_init_def shape4_def shape3_def shape2_def shape1_def)

text \<open>
  C5.  On an input of shape \<open>[B, C, H, W]\<close>, forward fails when the channel count, the
  height or the width differs from the configuration (a wrong height or width at forward's
  own check, a wrong channel count in the convolution), and returns a result when all
  three agree.
\<close>

theorem PatchEmbedding_forward_shape_check:
  assumes init: "PatchEmbedding_init img_size patch_size in_channels embed_dim winit binit = Inr pe"
    and pos: "0 < img_size" "0 < patch_size" "0 < in_channels" "0 < embed_dim"
    and x: "shape4 x B C H W" "0 < B" "0 < C" "0 < H" "0 < W"
  shows "(int C \<noteq> in_channels \<or> int H \<noteq> img_size \<or> int W \<noteq> img_size \<longrightarrow>
            isl (PatchEmbedding_forward pe x)) \<and>
         (int C = in_channels \<and> int H = img_size \<and> int W = img_size \<longrightarrow>
            (\<exists>y. PatchEmbedding_forward pe x = Inr y))"
proof -
  from PatchEmbedding_init_fields [OF init]
  have sz: "pe_img_size pe = img_size"
    and cv: "Conv2d_init in_channels embed_dim patch_size patch_size winit binit = Inr (pe_proj pe)"
    by simp_all
  have d2: "dim2 x = H" using x by (simp add: shape4_dim2)
  have d3: "dim3 x = W" using x by (simp add: shape4_dim3)
  have bad: "isl (PatchEmbedding_forward pe x)"
    if "int C \<noteq> in_channels \<or> int H \<noteq> img_size \<or> int W \<noteq> img_size"
  proof (cases "int H \<noteq> img_size \<or> int W \<noteq> img_size")
    case True
    then show ?thesis by (auto simp add: PatchEmbedding_forward_def d2 d3 sz)
  next
    case False
    with that have "int C \<noteq> in_channels" by simp
    from Conv2d_forward_channels [OF cv x(1) x(2) this] False
    show ?thesis by (simp add: PatchEmbedding_forward_def d2 d3 sz)
  qed
  have good: "\<exists>y. PatchEmbedding_forward pe x = Inr y"
    if m: "int C = in_channels \<and> int H = img_size \<and> int W = img_size"
  proof -
    from m x have "shape4 x B (nat in_channels) (nat img_size) (nat img_size)" by auto
    from PatchEmbedding_forward_ok [OF init pos x(2) this] show ?thesis by blast
  qed
  from bad good show ?thesis by blast
qed
theorem PatchEmbedding_forward_shape_check_witness:
  "isl (PatchEmbedding_forward
          (projr (PatchEmbedding_init 2 2 1 1 (\<lambda>e c ky kx. Fin 1) (\<lambda>e. Fin 0)))
          [[[[Fin 1, Fin 2], [Fin 3, Fin 4]], [[Fin 1, Fin 2], [Fin 3, Fin 4]]]]) \<and>
   (\<exists>y. PatchEmbedding_forward
          (projr (PatchEmbedding_init 2 2 1 1 (\<lambda>e c ky kx. Fin 1) (\<lambda>e. Fin 0)))
          [[[[Fin 1, Fin 2], [Fin 3, Fin 4]]]] = Inr y)"
  using PatchEmbedding_forward_shape_check [of 2 2 1 1 "\<lambda>e c ky kx. Fin 1" "\<lambda>e. Fin 0"
      "projr (PatchEmbedding_init 2 2 1 1 (\<lambda>e c ky kx. Fin 1) (\<lambda>e. Fin 0))"
      "[[[[Fin 1, Fin 2], [Fin 3, Fin 4]], [[Fin 1, Fin 2], [Fin 3, Fin 4]]]]" 1 2 2 2]
    PatchEmbedding_forward_shape_check [of 2 2 1 1 "\<lambda>e c ky kx. Fin 1" "\<lambda>e. Fin 0"
      "projr (PatchEmbedding_init 2 2 1 1 (\<lambda>e c ky kx. Fin 1) (\<lambda>e. Fin 0))"
      "[[[[Fin 1, Fin 2], [Fin 3, Fin 4]]]]" 1 1 2 2]
  by (simp add: PatchEmbedding_init_def Conv2d_init_def shape4_def shape3_def shape2_def shape1_def)

section \<open>The image-level mask\<close>

text \<open>
  C2.  Both top-level models return the same result for any two values of the image-level
  mask argument: the argument is accepted and never reaches the spatial encoder or the
  logits.
\<close>

theorem img_mask_is_ignored:
  "VisionTransformerWithTemporal_forward vt x img_mask1 seq_mask =
     VisionTransformerWithTemporal_forward vt x img_mask2 seq_mask \<and>
   VisionTransformer_forward m x' img_mask1 seq_mask' =
     VisionTransformer_forward m x' img_mask2 seq_mask'"
  by (simp add: VisionTransformerWithTemporal_forward_def VisionTransformer_forward_def)

section \<open>The table of PositionalEncoding\<close>

lemma div_term_powr:
  "real p * div_term d i = real p / 10000 powr (real (2 * i) / real_of_int d)"
proof -
  have "div_term d i = exp (- (real (2 * i) / real_of_int d * ln 10000))"
    by (simp add: div_term_def)
  also have "\<dots> = inverse (10000 powr (real (2 * i) / real_of_int d))"
    by (simp only: exp_minus powr_def) simp
  finally show ?thesis by (simp add: divide_inverse)
qed

lemma pe_entry_even:
  "pe_entry d p (2 * i) = Fin (sin (real p / 10000 powr (real (2 * i) / real_of_int d)))"
  using div_term_powr [of p d i] by (simp add: pe_entry_def)

lemma pe_entry_odd:
  "pe_entry d p (Suc (2 * i)) = Fin (cos (real p / 10000 powr (real (2 * i) / real_of_int d)))"
  using div_term_powr [of p d i] by (simp add: pe_entry_def)

lemma shape3_nth: "shape3 x a b c \<Longrightarrow> i < a \<Longrightarrow> shape2 (x ! i) b c"
  by (simp add: shape3_def list_all_length)

lemma shape2_nth: "shape2 x a b \<Longrightarrow> i < a \<Longrightarrow> length (x ! i) = b"
  by (simp add: shape2_def shape1_def list_all_length)

lemma shape2_length: "shape2 x a b \<Longrightarrow> length x = a"
  by (simp add: shape2_def)

lemma shape3_length: "shape3 x a b c \<Longrightarrow> length x = a"
  by (simp add: shape3_def)

lemma map2_fadd_shape:
  assumes "shape2 s L d" "shape2 t L d"
  shows "shape2 (map2 (map2 fadd) s t) L d"
  using assms
  by (auto simp add: shape2_def shape1_def list_all_length)

lemma PositionalEncoding_init_fields:
  assumes "PositionalEncoding_init embed_dim max_len = Inr pos"
  shows "pos_embed_dim pos = nat embed_dim \<and> pos_max_len pos = nat max_len \<and>
         pos_pe pos = map (\<lambda>p. map (\<lambda>j. pe_entry embed_dim p j) [0..<nat embed_dim])
                           [0..<nat max_len]"
  using assms by (auto simp add: PositionalEncoding_init_def split: if_splits)

lemma PositionalEncoding_forward_ok:
  assumes init: "PositionalEncoding_init embed_dim max_len = Inr pos"
    and x: "shape3 x B L (nat embed_dim)" "0 < B" "0 < L"
    and len: "L \<le> nat max_len"
  shows "\<exists>y. PositionalEncoding_forward pos x = Inr y \<and> shape3 y B L (nat embed_dim) \<and>
           (\<forall>b<B. \<forall>p<L. \<forall>i. 2 * i + 1 < nat embed_dim \<longrightarrow>
              y ! b ! p ! (2 * i) =
                fadd (x ! b ! p ! (2 * i))
                  (Fin (sin (real p / 10000 powr (real (2 * i) / real_of_int embed_dim)))) \<and>
              y ! b ! p ! (2 * i + 1) =
                fadd (x ! b ! p ! (2 * i + 1))
                  (Fin (cos (real p / 10000 powr (real (2 * i) / real_of_int embed_dim)))))"
proof -
  define d where "d = nat embed_dim"
  define tab where "tab = take L (pos_pe pos)"
  define y where "y = map (\<lambda>s. map2 (map2 fadd) s tab) x"
  note f = PositionalEncoding_init_fields [OF init]
  have d1: "dim1 x = L" using x by (simp add: shape3_dim1)
  have d2: "dim2 x = nat embed_dim" using x by (simp add: shape3_dim2)
  have fw: "PositionalEncoding_forward pos x = Inr y"
    using len by (simp add: PositionalEncoding_forward_def d1 d2 f y_def tab_def)
  have tab: "shape2 tab L d"
    using len by (simp add: tab_def f shape2_def shape1_def list_all_length d_def)
  have tabnth: "tab ! p ! j = pe_entry embed_dim p j" if "p < L" "j < d" for p j
    using that len by (simp add: tab_def f d_def)
  have sh: "shape3 y B L d"
    using x tab unfolding y_def d_def
    by (intro shape3_mapI) (auto simp add: shape3_def list_all_iff map2_fadd_shape)
  have nth: "y ! b ! p ! j = fadd (x ! b ! p ! j) (pe_entry embed_dim p j)"
    if "b < B" "p < L" "j < d" for b p j
  proof -
    have xb: "shape2 (x ! b) L d" using x that by (simp add: shape3_nth d_def)
    have "y ! b = map2 (map2 fadd) (x ! b) tab"
      using that x by (simp add: y_def shape3_length)
    then have "y ! b ! p = map2 fadd (x ! b ! p) (tab ! p)"
      using that xb tab by (simp add: shape2_length)
    then show ?thesis
      using that xb tab by (simp add: shape2_nth tabnth)
  qed
  have "y ! b ! p ! (2 * i) =
          fadd (x ! b ! p ! (2 * i))
            (Fin (sin (real p / 10000 powr (real (2 * i) / real_of_int embed_dim)))) \<and>
        y ! b ! p ! (2 * i + 1) =
          fadd (x ! b ! p ! (2 * i + 1))
            (Fin (cos (real p / 10000 powr (real (2 * i) / real_of_int embed_dim))))"
    if "b < B" "p < L" "2 * i + 1 < nat embed_dim" for b p i
    using nth [OF that(1,2), of "2 * i"] nth [OF that(1,2), of "2 * i + 1"] that(3)
    by (simp add: d_def pe_entry_even pe_entry_odd del: of_nat_mult)
  with fw sh show ?thesis unfolding d_def by blast
qed

text \<open>
  C6.  For an input of shape \<open>[B, L, d]\<close> with \<open>L\<close> at most the configured maximum
  length, forward returns the input plus the first \<open>L\<close> rows of the table, and the
  table holds \<open>sin(p / 10000^(2i/d))\<close> in column \<open>2i\<close> and
  \<open>cos(p / 10000^(2i/d))\<close> in column \<open>2i+1\<close> of row \<open>p\<close>.
\<close>

theorem PositionalEncoding_forward_table:
  assumes init: "PositionalEncoding_init embed_dim max_len = Inr pos"
    and x: "shape3 x B L (nat embed_dim)" "0 < B" "0 < L"
    and len: "L \<le> nat max_len"
  shows "\<exists>y. PositionalEncoding_forward pos x = Inr y \<and> shape3 y B L (nat embed_dim) \<and>
           (\<forall>b<B. \<forall>p<L. \<forall>i. 2 * i + 1 < nat embed_dim \<longrightarrow>
              y ! b ! p ! (2 * i) =
                fadd (x ! b ! p ! (2 * i))
                  (Fin (sin (real p / 10000 powr (real (2 * i) / real_of_int embed_dim)))) \<and>
              y ! b ! p ! (2 * i + 1) =
                fadd (x ! b ! p ! (2 * i + 1))
                  (Fin (cos (real p / 10000 powr (real (2 * i) / real_of_int embed_dim)))))"
  using init x len by (rule PositionalEncoding_forward_ok)

theorem PositionalEncoding_forward_table_witness:
  "\<exists>y. PositionalEncoding_forward (projr (PositionalEncoding_init 2 1)) [[[Fin 0, Fin 0]]] = Inr y
       \<and> shape3 y 1 1 2 \<and> y ! 0 ! 0 ! 0 = Fin 0 \<and> y ! 0 ! 0 ! 1 = Fin 1"
proof -
  have i: "PositionalEncoding_init 2 1 = Inr (projr (PositionalEncoding_init 2 1))"
    by (simp add: PositionalEncoding_init_def)
  have s: "shape3 [[[Fin 0, Fin 0]]] 1 1 (nat 2)"
    by (simp add: shape3_def shape2_def shape1_def)
  from PositionalEncoding_forward_table [OF i s]
  obtain y where y: "PositionalEncoding_forward (projr (PositionalEncoding_init 2 1))
        [[[Fin 0, Fin 0]]] = Inr y" "shape3 y 1 1 (nat 2)"
    and e: "\<forall>b<1. \<forall>p<1. \<forall>i. 2 * i + 1 < nat 2 \<longrightarrow>
              y ! b ! p ! (2 * i) =
                fadd ([[[Fin 0, Fin 0]]] ! b ! p ! (2 * i))
                  (Fin (sin (real p / 10000 powr (real (2 * i) / real_of_int 2)))) \<and>
              y ! b ! p ! (2 * i + 1) =
                fadd ([[[Fin 0, Fin 0]]] ! b ! p ! (2 * i + 1))
                  (Fin (cos (real p / 10000 powr (real (2 * i) / real_of_int 2))))"
    by auto
  from e have "y ! 0 ! 0 ! (2 * 0) = Fin 0 \<and> y ! 0 ! 0 ! (2 * 0 + 1) = Fin 1"
    by (elim allE [of _ 0]) simp
  with y show ?thesis by auto
qed

section \<open>Attention over a fully masked row\<close>

lemma is_finite_iff: "is_finite a \<longleftrightarrow> (\<exists>r. a = Fin r)"
  by (cases a) auto

lemma fadd_zero_left: "fadd (Fin 0) b = b"
  by (cases b) auto

lemma fsum_Nil: "fsum [] = Fin 0"
  by (simp add: fsum_def)

lemma fsum_Cons: "fsum (a # xs) = fadd a (fsum xs)"
  by (simp add: fsum_def)







lemma Linear_forward_length:
  "Linear_wf l n_out n_in \<Longrightarrow> length (Linear_forward l v) = n_out"
  by (simp add: Linear_forward_def Linear_wf_def shape2_def)













section \<open>Shapes through the encoder\<close>

lemma shape2I: "length x = a \<Longrightarrow> (\<And>r. r \<in> set x \<Longrightarrow> length r = b) \<Longrightarrow> shape2 x a b"
  by (simp add: shape2_def shape1_def list_all_iff)

lemma shape3I: "length x = a \<Longrightarrow> (\<And>r. r \<in> set x \<Longrightarrow> shape2 r b c) \<Longrightarrow> shape3 x a b c"
  by (simp add: shape3_def list_all_iff)

lemma shape2D: "shape2 x a b \<Longrightarrow> r \<in> set x \<Longrightarrow> length r = b"
  by (simp add: shape2_def shape1_def list_all_iff)

lemma shape3D: "shape3 x a b c \<Longrightarrow> r \<in> set x \<Longrightarrow> shape2 r b c"
  by (simp add: shape3_def list_all_iff)

lemma LayerNorm_forward_length:
  "LayerNorm_wf lnorm d \<Longrightarrow> length v = d \<Longrightarrow> length (LayerNorm_forward lnorm v) = d"
  by (simp add: LayerNorm_forward_def LayerNorm_wf_def Let_def)

lemma map_rows_shape3:
  assumes "shape3 x B S d" "\<And>v. length v = d \<Longrightarrow> length (f v) = e"
  shows "shape3 (map (map f) x) B S e"
  using assms
  by (auto simp add: shape3_def shape2_def shape1_def list_all_iff)

lemma attention_row_shape:
  assumes "MultiHeadSelfAttention_wf mh d"
  shows "shape2 (attention_row mh xs m) (length xs) d"
  using assms
  by (auto simp add: attention_row_def Let_def MultiHeadSelfAttention_wf_def
      intro!: shape2I Linear_forward_length)

lemma MultiHeadSelfAttention_forward_shape:
  assumes wf: "MultiHeadSelfAttention_wf mh d"
    and x: "shape3 x B S d" "0 < B" "0 < S"
    and m: "case msk of None \<Rightarrow> True | Some ms \<Rightarrow> shape2 ms B S"
  shows "\<exists>y. MultiHeadSelfAttention_forward mh x msk = Inr y \<and> shape3 y B S d"
proof -
  have d1: "dim1 x = S" and d2: "dim2 x = d" and lx: "length x = B"
    using x by (simp_all add: shape3_dim1 shape3_dim2 shape3_length)
  have e: "mh_embed_dim mh = d" using wf by (simp add: MultiHeadSelfAttention_wf_def)
  have row: "shape2 (attention_row mh xs mm) S d" if "xs \<in> set x" for xs mm
    using attention_row_shape [OF wf, of xs mm] shape3D [OF x(1) that]
    by (simp add: shape2_length)
  show ?thesis
  proof (cases msk)
    case None
    then show ?thesis
      using lx row by (auto simp add: MultiHeadSelfAttention_forward_def d2 e intro!: shape3I)
  next
    case (Some ms)
    with m have ms: "shape2 ms B S" by simp
    then have lm: "length ms = B" by (simp add: shape2_length)
    have "shape3 (map2 (\<lambda>xs m. attention_row mh xs (Some m)) x ms) B S d"
    proof (rule shape3I)
      show "length (map2 (\<lambda>xs m. attention_row mh xs (Some m)) x ms) = B"
        using lx lm by simp
      fix r assume "r \<in> set (map2 (\<lambda>xs m. attention_row mh xs (Some m)) x ms)"
      then obtain xs mm where "(xs, mm) \<in> set (zip x ms)" "r = attention_row mh xs (Some mm)"
        by auto
      then show "shape2 r S d" using row [of xs "Some mm"] by (auto dest: set_zip_leftD)
    qed
    then show ?thesis
      using Some ms lx by (simp add: MultiHeadSelfAttention_forward_def d1 d2 e)
  qed
qed

lemma tadd_shape:
  assumes "shape3 x B S d" "shape3 y B S d"
  shows "shape3 (tadd x y) B S d"
  using assms
  by (auto simp add: tadd_def shape3_def shape2_def shape1_def list_all_length)

lemma mlp_length:
  "TransformerEncoderLayer_wf l d \<Longrightarrow> length (mlp l v) = d"
  by (auto simp add: mlp_def TransformerEncoderLayer_wf_def intro: Linear_forward_length)

lemma TransformerEncoderLayer_forward_shape:
  assumes wf: "TransformerEncoderLayer_wf l d"
    and x: "shape3 x B S d" "0 < B" "0 < S"
    and m: "case msk of None \<Rightarrow> True | Some ms \<Rightarrow> shape2 ms B S"
  shows "\<exists>y. TransformerEncoderLayer_forward l x msk = Inr y \<and> shape3 y B S d"
proof -
  have d2: "dim2 x = d" using x by (simp add: shape3_dim2)
  have n1: "LayerNorm_wf (el_norm1 l) d" and a: "MultiHeadSelfAttention_wf (el_attn l) d"
    using wf by (simp_all add: TransformerEncoderLayer_wf_def)
  have "shape3 (map (map (LayerNorm_forward (el_norm1 l))) x) B S d"
    by (rule map_rows_shape3 [OF x(1)]) (rule LayerNorm_forward_length [OF n1])
  from MultiHeadSelfAttention_forward_shape [OF a this x(2,3) m]
  obtain att where att: "MultiHeadSelfAttention_forward (el_attn l)
      (map (map (LayerNorm_forward (el_norm1 l))) x) msk = Inr att" "shape3 att B S d"
    by blast
  have x1: "shape3 (tadd x att) B S d" using x(1) att(2) by (rule tadd_shape)
  have "shape3 (map (map (\<lambda>v. mlp l (LayerNorm_forward (el_norm2 l) v))) (tadd x att)) B S d"
    by (rule map_rows_shape3 [OF x1]) (rule mlp_length [OF wf])
  with x1 have "shape3 (tadd (tadd x att)
      (map (map (\<lambda>v. mlp l (LayerNorm_forward (el_norm2 l) v))) (tadd x att))) B S d"
    by (rule tadd_shape)
  then show ?thesis
    using att(1) n1 by (simp add: TransformerEncoderLayer_forward_def d2 LayerNorm_wf_def Let_def)
qed

lemma run_layers_shape:
  assumes "list_all (\<lambda>l. TransformerEncoderLayer_wf l d) ls"
    and "shape3 x B S d" "0 < B" "0 < S"
    and "case msk of None \<Rightarrow> True | Some ms \<Rightarrow> shape2 ms B S"
  shows "\<exists>y. run_layers ls x msk = Inr y \<and> shape3 y B S d"
  using assms
proof (induction ls arbitrary: x)
  case Nil
  then show ?case by simp
next
  case (Cons l ls)
  from Cons.prems have "TransformerEncoderLayer_wf l d" by simp
  from TransformerEncoderLayer_forward_shape [OF this Cons.prems(2,3,4,5)]
  obtain y where y: "TransformerEncoderLayer_forward l x msk = Inr y" "shape3 y B S d"
    by blast
  from Cons.prems have "list_all (\<lambda>l. TransformerEncoderLayer_wf l d) ls" by simp
  from Cons.IH [OF this y(2) Cons.prems(3,4,5)] y(1)
  show ?case by simp
qed

lemma TransformerEncoder_forward_shape:
  assumes wf: "TransformerEncoder_wf enc d"
    and x: "shape3 x B S d" "0 < B" "0 < S"
    and m: "case msk of None \<Rightarrow> True | Some ms \<Rightarrow> shape2 ms B S"
  shows "\<exists>y. TransformerEncoder_forward enc x msk = Inr y \<and> shape3 y B S d"
proof -
  have d2: "dim2 x = d" using x by (simp add: shape3_dim2)
  from wf obtain l0 ls where ls: "enc_layers enc = l0 # ls"
    by (cases "enc_layers enc") (auto simp add: TransformerEncoder_wf_def)
  from wf have all: "list_all (\<lambda>l. TransformerEncoderLayer_wf l d) (enc_layers enc)"
    and nf: "LayerNorm_wf (enc_norm enc) d"
    by (simp_all add: TransformerEncoder_wf_def)
  from all ls have "ln_normalized_shape (el_norm1 l0) = d"
    by (simp add: TransformerEncoderLayer_wf_def LayerNorm_wf_def)
  moreover from run_layers_shape [OF all x m]
  obtain y where y: "run_layers (enc_layers enc) x msk = Inr y" "shape3 y B S d" by blast
  moreover have "shape3 (map (map (LayerNorm_forward (enc_norm enc))) y) B S d"
    by (rule map_rows_shape3 [OF y(2)]) (rule LayerNorm_forward_length [OF nf])
  ultimately show ?thesis
    using ls by (simp add: TransformerEncoder_forward_def d2)
qed

lemma encode_and_norm_shape:
  assumes wf: "TemporalTransformerEncoder_wf te d"
    and x: "shape3 x B S d" "0 < B" "0 < S"
    and m: "case msk of None \<Rightarrow> True | Some ms \<Rightarrow> shape2 ms B S"
  shows "\<exists>y. encode_and_norm te x msk = Inr y \<and> shape3 y B S d"
proof -
  from wf have e: "TransformerEncoder_wf (te_transformer_encoder te) d"
    and n: "LayerNorm_wf (te_norm te) d"
    by (simp_all add: TemporalTransformerEncoder_wf_def)
  from TransformerEncoder_forward_shape [OF e x m]
  obtain y where y: "TransformerEncoder_forward (te_transformer_encoder te) x msk = Inr y"
    "shape3 y B S d" by blast
  have "shape3 (map (map (LayerNorm_forward (te_norm te))) y) B S d"
    by (rule map_rows_shape3 [OF y(2)]) (rule LayerNorm_forward_length [OF n])
  with y(1) show ?thesis by (simp add: encode_and_norm_def)
qed

lemma fmul_one: "fmul a (Fin 1) = a"
  by (cases a) (auto simp add: inf_times_def)

lemma masked_column_sum:
  assumes "length rows = length ms" "\<And>r. r \<in> set rows \<Longrightarrow> length r = d"
    "masked_finite rows ms" "j < d"
  shows "fsum (map (\<lambda>r. r ! j) (map2 (\<lambda>v m. map (\<lambda>a. fmul a (mask_val m)) v) rows ms))
           = fsum (map (\<lambda>r. r ! j) (valid_rows rows ms))"
  using assms
proof (induction rows arbitrary: ms)
  case Nil
  then show ?case by (simp add: valid_rows_def)
next
  case (Cons r rows)
  then obtain m mt where ms: "ms = m # mt" by (cases ms) auto
  have lr: "j < length r" using Cons.prems(2) [of r] Cons.prems(4) by simp
  have ih: "fsum (map (\<lambda>r. r ! j) (map2 (\<lambda>v m. map (\<lambda>a. fmul a (mask_val m)) v) rows mt))
           = fsum (map (\<lambda>r. r ! j) (valid_rows rows mt))"
    using Cons.prems ms by (intro Cons.IH) (auto simp add: masked_finite_def)
  show ?case
  proof (cases m)
    case True
    then show ?thesis
      using ih lr by (simp add: ms valid_rows_def fsum_Cons mask_val_def fmul_one)
  next
    case False
    with Cons.prems(3) ms have "finite_vec r" by (simp add: masked_finite_def)
    with lr obtain c where "r ! j = Fin c"
      by (auto simp add: finite_vec_def list_all_length is_finite_iff)
    then show ?thesis
      using ih lr False by (simp add: ms valid_rows_def fsum_Cons mask_val_def fadd_zero_left)
  qed
qed

lemma masked_mean_valid:
  assumes "length rows = length ms" "\<And>r. r \<in> set rows \<Longrightarrow> length r = d"
    "masked_finite rows ms"
  shows "masked_mean d rows ms = valid_mean d rows ms"
  using masked_column_sum [OF assms]
  by (simp add: masked_mean_def valid_mean_def sum_positions_def Let_def)

lemma valid_rows_all_masked: "list_all (\<lambda>m. \<not> m) ms \<Longrightarrow> valid_rows rows ms = []"
  by (auto simp add: valid_rows_def list_all_iff filter_empty_conv dest: set_zip_rightD)

lemma count_valid_all_masked: "list_all (\<lambda>m. \<not> m) ms \<Longrightarrow> count_valid ms = 0"
  by (auto simp add: count_valid_def list_all_iff filter_empty_conv)

lemma masked_finite_all_masked:
  "list_all (\<lambda>m. \<not> m) ms \<Longrightarrow> masked_finite rows ms = list_all finite_vec (take (length ms) rows)"
proof (induction rows arbitrary: ms)
  case Nil
  then show ?case by (simp add: masked_finite_def)
next
  case (Cons r rows)
  then show ?case by (cases ms) (auto simp add: masked_finite_def)
qed

lemma TemporalTransformerEncoder_forward_masked:
  assumes wf: "TemporalTransformerEncoder_wf te d"
    and x: "shape3 x B S d" "0 < B" "0 < S"
    and ms: "shape2 ms B S"
  shows "\<exists>y. encode_and_norm te x (Some ms) = Inr y \<and> shape3 y B S d \<and>
           TemporalTransformerEncoder_forward te x (Some ms) = Inr (map2 (masked_mean d) y ms)"
proof -
  have d1: "dim1 x = S" and d2: "dim2 x = d" and lx: "length x = B"
    using x by (simp_all add: shape3_dim1 shape3_dim2 shape3_length)
  have lm: "length ms = B" and dm: "dim1 ms = S"
    using ms x by (simp_all add: shape2_length shape2_dim1)
  from encode_and_norm_shape [OF wf x, of "Some ms"] ms
  obtain y where y: "encode_and_norm te x (Some ms) = Inr y" "shape3 y B S d" by auto
  then show ?thesis
    by (simp add: TemporalTransformerEncoder_forward_def lx lm dm d1 d2)
qed

section \<open>Aggregation in the TemporalTransformerEncoder\<close>

lemmas tiny_defs = tiny_temporal_def tiny_encoder_def tiny_layer_def const_norm_def
  const_linear_def

lemmas eval_defs = encode_and_norm_def TransformerEncoder_forward_def
  TransformerEncoderLayer_forward_def MultiHeadSelfAttention_forward_def attention_row_def
  Linear_forward_def LayerNorm_forward_def dot_def fsum_def head_slice_def attn_scores_def
  masked_fill_def attn_weights_def softmax_def fsub_def attn_apply_def mlp_def tadd_def
  dim1_def dim2_def shape2_def shape1_def ln_eps_def Let_def

lemma tiny_temporal_wf: "TemporalTransformerEncoder_wf (tiny_temporal b) (length b)"
  by (simp add: TemporalTransformerEncoder_wf_def TransformerEncoder_wf_def
      TransformerEncoderLayer_wf_def MultiHeadSelfAttention_wf_def LayerNorm_wf_def Linear_wf_def
      tiny_defs shape2_def shape1_def list_all_iff)

lemma TemporalTransformerEncoder_forward_unmasked:
  assumes wf: "TemporalTransformerEncoder_wf te d"
    and x: "shape3 x B S d" "0 < B" "0 < S"
  shows "\<exists>y. encode_and_norm te x None = Inr y \<and> shape3 y B S d \<and>
           TemporalTransformerEncoder_forward te x None =
             Inr (map (\<lambda>rows. map (\<lambda>a. fdiv a (Fin (real S))) (sum_positions d rows)) y)"
proof -
  have d2: "dim2 x = d" using x by (simp add: shape3_dim2)
  from encode_and_norm_shape [OF wf x, of None]
  obtain y where y: "encode_and_norm te x None = Inr y" "shape3 y B S d" by auto
  have "map (mean_positions d) y =
          map (\<lambda>rows. map (\<lambda>a. fdiv a (Fin (real S))) (sum_positions d rows)) y"
    using y(2) by (intro map_cong) (auto simp add: mean_positions_def dest: shape3D shape2_length)
  with y show ?thesis
    by (simp add: TemporalTransformerEncoder_forward_def d2)
qed

text \<open>
  Where the post-encoder, post-normalization vectors at the masked positions are finite,
  multiplying by the mask does zero them: the result for such a clip is the sum over its
  valid positions divided by their clamped number, and a clip with an all-zero mask row
  comes out as the zero vector.  With no mask the result is the plain mean.
\<close>

lemma mean_pooling_on_finite:
  assumes wf: "TemporalTransformerEncoder_wf te d"
    and x: "shape3 x B S d" "0 < B" "0 < S"
  shows "(shape2 ms B S \<longrightarrow>
           (\<exists>y out. encode_and_norm te x (Some ms) = Inr y \<and>
              TemporalTransformerEncoder_forward te x (Some ms) = Inr out \<and> length out = B \<and>
              (\<forall>b<B. masked_finite (y ! b) (ms ! b) \<longrightarrow>
                 out ! b = valid_mean d (y ! b) (ms ! b)))) \<and>
         (\<exists>y. encode_and_norm te x None = Inr y \<and>
            TemporalTransformerEncoder_forward te x None =
              Inr (map (\<lambda>rows. map (\<lambda>a. fdiv a (Fin (real S))) (sum_positions d rows)) y))"
proof (intro conjI impI)
  assume ms: "shape2 ms B S"
  from TemporalTransformerEncoder_forward_masked [OF wf x ms]
  obtain y where y: "encode_and_norm te x (Some ms) = Inr y" "shape3 y B S d"
    "TemporalTransformerEncoder_forward te x (Some ms) = Inr (map2 (masked_mean d) y ms)"
    by blast
  have ly: "length y = B" and lm: "length ms = B"
    using y(2) ms by (simp_all add: shape3_length shape2_length)
  have "map2 (masked_mean d) y ms ! b = valid_mean d (y ! b) (ms ! b)"
    if b: "b < B" and f: "masked_finite (y ! b) (ms ! b)" for b
  proof -
    have yb: "shape2 (y ! b) S d" using y(2) b by (rule shape3_nth)
    have "map2 (masked_mean d) y ms ! b = masked_mean d (y ! b) (ms ! b)"
      using b ly lm by simp
    also have "\<dots> = valid_mean d (y ! b) (ms ! b)"
    proof (rule masked_mean_valid [OF _ _ f])
      show "length (y ! b) = length (ms ! b)"
        using yb ms b by (simp add: shape2_length shape2_nth)
      show "length r = d" if "r \<in> set (y ! b)" for r
        using yb that by (rule shape2D)
    qed
    finally show ?thesis .
  qed
  with y(1,3) ly lm
  show "\<exists>y out. encode_and_norm te x (Some ms) = Inr y \<and>
              TemporalTransformerEncoder_forward te x (Some ms) = Inr out \<and> length out = B \<and>
              (\<forall>b<B. masked_finite (y ! b) (ms ! b) \<longrightarrow>
                 out ! b = valid_mean d (y ! b) (ms ! b))"
    by (intro exI [of _ y] exI [of _ "map2 (masked_mean d) y ms"]) simp
next
  from TemporalTransformerEncoder_forward_unmasked [OF wf x]
  show "\<exists>y. encode_and_norm te x None = Inr y \<and>
            TemporalTransformerEncoder_forward te x None =
              Inr (map (\<lambda>rows. map (\<lambda>a. fdiv a (Fin (real S))) (sum_positions d rows)) y)"
    by blast
qed

lemma all_masked_clip_on_finite:
  assumes wf: "TemporalTransformerEncoder_wf te d"
    and x: "shape3 x B S d" "0 < B" "0 < S"
    and ms: "shape2 ms B S" "b < B" "list_all (\<lambda>m. \<not> m) (ms ! b)"
  shows "\<exists>y. encode_and_norm te x (Some ms) = Inr y \<and>
           (list_all finite_vec (y ! b) \<longrightarrow>
              (\<exists>out. TemporalTransformerEncoder_forward te x (Some ms) = Inr out \<and>
                 out ! b = replicate d (Fin 0)))"
proof -
  from TemporalTransformerEncoder_forward_masked [OF wf x ms(1)]
  obtain y where y: "encode_and_norm te x (Some ms) = Inr y" "shape3 y B S d"
    "TemporalTransformerEncoder_forward te x (Some ms) = Inr (map2 (masked_mean d) y ms)"
    by blast
  have ly: "length y = B" and lm: "length ms = B"
    using y(2) ms by (simp_all add: shape3_length shape2_length)
  have yb: "shape2 (y ! b) S d" using y(2) ms(2) by (rule shape3_nth)
  have lmb: "length (ms ! b) = S" using ms by (simp add: shape2_nth)
  have "map2 (masked_mean d) y ms ! b = replicate d (Fin 0)" if f: "list_all finite_vec (y ! b)"
  proof -
    have mf: "masked_finite (y ! b) (ms ! b)"
      using f yb lmb by (simp add: masked_finite_all_masked [OF ms(3)] shape2_length)
    have "map2 (masked_mean d) y ms ! b = masked_mean d (y ! b) (ms ! b)"
      using ms(2) ly lm by simp
    also have "\<dots> = valid_mean d (y ! b) (ms ! b)"
    proof (rule masked_mean_valid [OF _ _ mf])
      show "length (y ! b) = length (ms ! b)"
        using yb lmb by (simp add: shape2_length)
      show "length r = d" if "r \<in> set (y ! b)" for r
        using yb that by (rule shape2D)
    qed
    also have "\<dots> = replicate d (Fin 0)"
      by (simp add: valid_mean_def valid_rows_all_masked [OF ms(3)]
          count_valid_all_masked [OF ms(3)] sum_positions_def fsum_Nil map_replicate_const)
    finally show ?thesis .
  qed
  with y(1,3) show ?thesis by blast
qed

text \<open>
  The aggregation step on its own: one valid frame with value 1 and one masked frame
  holding not-a-number.  The mean over the valid frames is 1; the product with the mask
  leaves not-a-number in place and the result is not-a-number.
\<close>

lemma masked_mean_leak:
  "masked_mean 1 [[Fin 1], [NaN]] [True, False] = [NaN] \<and>
   valid_mean 1 [[Fin 1], [NaN]] [True, False] = [Fin 1]"
  by (simp add: masked_mean_def valid_mean_def sum_positions_def mask_val_def count_valid_def
      valid_rows_def fsum_def)





section \<open>The recurrent path of VisionTransformer\<close>

lemma perm_length:
  assumes "distinct idx" "set idx = {0..<B}"
  shows "length idx = B"
  using assms distinct_card [of idx] by simp

lemma argsort_inverse:
  assumes d: "distinct idx" and s: "set idx = {0..<B}"
  shows "length (argsort idx) = B"
    and "i < B \<Longrightarrow> argsort idx ! i < B \<and> idx ! (argsort idx ! i) = i"
proof -
  have len: "length idx = B" using d s by (rule perm_length)
  define a where "a = argsort idx"
  have la: "length a = B" by (simp add: a_def argsort_def len)
  have sa: "set a = {0..<B}" by (simp add: a_def argsort_def len)
  have da: "distinct a" by (simp add: a_def argsort_def)
  show "length (argsort idx) = B" using la by (simp add: a_def)
  have "inj_on ((!) idx) (set a)"
    using d sa len by (auto simp add: inj_on_def nth_eq_iff_index_eq)
  then have dl: "distinct (map ((!) idx) a)" using da by (simp add: distinct_map)
  have img: "(!) idx ` {0..<B} = set idx"
    using len by (auto simp add: set_conv_nth)
  have "set (map ((!) idx) a) = (!) idx ` set a" by (rule set_map)
  also have "\<dots> = (!) idx ` {0..<B}" by (rule arg_cong [OF sa])
  also have "\<dots> = set idx" by (rule img)
  also have "\<dots> = {0..<B}" by (rule s)
  finally have sl: "set (map ((!) idx) a) = {0..<B}" .
  have so: "sorted (map ((!) idx) a)"
    by (simp add: a_def argsort_def)
  have eq: "map ((!) idx) a = [0..<B]"
    by (rule sorted_distinct_set_unique [OF so dl]) (simp_all only: sl set_upt sorted_upt distinct_upt)
  show "argsort idx ! i < B \<and> idx ! (argsort idx ! i) = i" if "i < B"
  proof -
    from that la sa have "a ! i < B" by (metis atLeastLessThan_iff nth_mem)
    moreover have "map ((!) idx) a ! i = [0..<B] ! i" by (simp only: eq)
    then have "idx ! (a ! i) = i" using that la by simp
    ultimately show ?thesis by (simp add: a_def)
  qed
qed

lemma argsort_descending_perm:
  "distinct (argsort_descending lengths)"
  "set (argsort_descending lengths) = {0..<length lengths}"
  "sorted (rev (map (\<lambda>i. lengths ! i) (argsort_descending lengths)))"
proof -
  show "distinct (argsort_descending lengths)"
    by (simp add: argsort_descending_def)
  show "set (argsort_descending lengths) = {0..<length lengths}"
    by (simp add: argsort_descending_def)
  have "sorted (map (\<lambda>i. - int (lengths ! i)) (argsort_descending lengths))"
    by (simp add: argsort_descending_def)
  then show "sorted (rev (map (\<lambda>i. lengths ! i) (argsort_descending lengths)))"
    by (simp add: sorted_wrt_rev sorted_wrt_map)
qed

lemma recurrent_last_outputs_masked:
  assumes lstm: "\<And>xs. length (temporal_model m xs) = length xs"
    and idx: "distinct idx" "set idx = {0..<B}"
      "sorted (rev (map (\<lambda>i. lengths ! i) idx))"
    and x: "length x = B" "\<And>r. r \<in> set x \<Longrightarrow> length r = S"
    and l: "length lengths = B" "\<And>n. n \<in> set lengths \<Longrightarrow> 0 < n \<and> n \<le> S"
  shows "recurrent_last_outputs m idx S x lengths True =
           Inr (map2 (\<lambda>xs n. temporal_model m (take n xs) ! (n - 1)) x lengths)"
proof -
  define pad where "pad = (\<lambda>xs n. let out = temporal_model m (take n xs)
      in out @ replicate (S - length out) (replicate (lstm_output_size m) (Fin 0)))"
  define out_sorted where
    "out_sorted = map2 pad (map (\<lambda>i. x ! i) idx) (map (\<lambda>i. lengths ! i) idx)"
  have len: "length idx = B" using idx(1,2) by (rule perm_length)
  have in_range: "i < B" if "i \<in> set idx" for i using that idx(2) by simp
  have g1: "\<not> list_ex (\<lambda>i. length x \<le> i) idx"
    using in_range x(1) by (fastforce simp add: list_ex_iff)
  have g2: "\<not> list_ex (\<lambda>n. n = 0 \<or> S < n) (map (\<lambda>i. lengths ! i) idx)"
  proof -
    have "0 < lengths ! i \<and> lengths ! i \<le> S" if "i \<in> set idx" for i
      using in_range [OF that] l by simp
    then have "\<forall>i\<in>set idx. lengths ! i \<noteq> 0 \<and> \<not> S < lengths ! i"
      by (simp add: not_less)
    then show ?thesis by (simp add: list_ex_iff)
  qed
  have pk: "pack_and_run m S (map (\<lambda>i. x ! i) idx) (map (\<lambda>i. lengths ! i) idx) = Inr out_sorted"
    using g2 idx(3) by (simp add: pack_and_run_def out_sorted_def pad_def)
  have os: "out_sorted ! j = pad (x ! (idx ! j)) (lengths ! (idx ! j))" if "j < B" for j
    using that len by (simp add: out_sorted_def)
  have sel: "map (\<lambda>j. out_sorted ! j) (argsort idx) ! i = pad (x ! i) (lengths ! i)"
    if "i < B" for i
    using argsort_inverse [OF idx(1,2)] that os by simp
  have last: "pad (x ! i) (lengths ! i) ! (max 1 (lengths ! i) - 1)
                = temporal_model m (take (lengths ! i) (x ! i)) ! (lengths ! i - 1)"
    if "i < B" for i
  proof -
    from that l have n: "0 < lengths ! i" "lengths ! i \<le> S" by simp_all
    from that x have "length (x ! i) = S" by simp
    with n have "length (temporal_model m (take (lengths ! i) (x ! i))) = lengths ! i"
      by (simp add: lstm)
    with n show ?thesis by (simp add: pad_def Let_def nth_append max_def)
  qed
  have "map2 (\<lambda>out n. out ! (max 1 n - 1)) (map (\<lambda>j. out_sorted ! j) (argsort idx)) lengths
          = map2 (\<lambda>xs n. temporal_model m (take n xs) ! (n - 1)) x lengths"
  proof (rule nth_equalityI)
    show "length (map2 (\<lambda>out n. out ! (max 1 n - 1)) (map (\<lambda>j. out_sorted ! j) (argsort idx)) lengths)
            = length (map2 (\<lambda>xs n. temporal_model m (take n xs) ! (n - 1)) x lengths)"
      using argsort_inverse(1) [OF idx(1,2)] x(1) l(1) by simp
    fix i assume "i < length (map2 (\<lambda>out n. out ! (max 1 n - 1))
                     (map (\<lambda>j. out_sorted ! j) (argsort idx)) lengths)"
    then have i: "i < B" using argsort_inverse(1) [OF idx(1,2)] l(1) by simp
    have "map2 (\<lambda>out n. out ! (max 1 n - 1)) (map (\<lambda>j. out_sorted ! j) (argsort idx)) lengths ! i
            = (map (\<lambda>j. out_sorted ! j) (argsort idx) ! i) ! (max 1 (lengths ! i) - 1)"
      using i argsort_inverse(1) [OF idx(1,2)] l(1) by simp
    also have "\<dots> = temporal_model m (take (lengths ! i) (x ! i)) ! (lengths ! i - 1)"
      using sel [OF i] last [OF i] by simp
    also have "\<dots> = map2 (\<lambda>xs n. temporal_model m (take n xs) ! (n - 1)) x lengths ! i"
      using i x(1) l(1) by simp
    finally show "map2 (\<lambda>out n. out ! (max 1 n - 1)) (map (\<lambda>j. out_sorted ! j) (argsort idx)) lengths ! i
            = map2 (\<lambda>xs n. temporal_model m (take n xs) ! (n - 1)) x lengths ! i" .
  qed
  then show ?thesis
    using g1 pk by (simp add: recurrent_last_outputs_def)
qed

lemma regroup_shape:
  assumes "length f = B * S"
  shows "length (regroup B S f) = B" and "\<And>r. r \<in> set (regroup B S f) \<Longrightarrow> length r = S"
proof -
  show "length (regroup B S f) = B" by (simp add: regroup_def)
  fix r assume "r \<in> set (regroup B S f)"
  then obtain b where b: "b < B" and r: "r = take S (drop (b * S) f)"
    by (auto simp add: regroup_def)
  from b obtain k where "B = Suc (b + k)" using less_imp_Suc_add by blast
  then have "B * S - b * S = S + k * S" by (simp add: algebra_simps)
  then show "length r = S" using assms by (simp add: r)
qed

lemma count_valid_le: "count_valid r \<le> length r"
  by (simp add: count_valid_def)

text \<open>
  C3.  On the recurrent path, with a sequence mask in which every clip has at least one
  valid frame, the vector passed to the classification layer for each clip is the hidden
  state at time index (number of valid frames - 1) of the recurrent layer run on that
  clip's valid prefix, in the clip's own batch position.  The same holds for every
  permutation that sorts the lengths in descending order, so the result does not depend
  on how the internal sort breaks ties.
\<close>

theorem VisionTransformer_recurrent_last_valid:
  assumes um: "use_temporal_model m"
    and lstm: "\<And>xs. length (temporal_model m xs) = length xs"
    and v: "vit m (concat x) = Inr feats" "length feats = B * S"
    and x: "length x = B" "dim1 x = S"
    and ms: "shape2 ms B S" "list_all (\<lambda>r. 0 < count_valid r) ms"
  shows "VisionTransformer_forward m x img_mask (Some ms) =
           Inr (map (Linear_forward (temporal_fc m))
                  (map2 (\<lambda>xs r. temporal_model m (take (count_valid r) xs) ! (count_valid r - 1))
                     (regroup B S feats) ms)) \<and>
         (\<forall>idx. distinct idx \<and> set idx = {0..<B} \<and>
                sorted (rev (map (\<lambda>i. map count_valid ms ! i) idx)) \<longrightarrow>
            recurrent_last_outputs m idx S (regroup B S feats) (map count_valid ms) True =
              Inr (map2 (\<lambda>xs r. temporal_model m (take (count_valid r) xs) ! (count_valid r - 1))
                     (regroup B S feats) ms))"
proof -
  define lengths where "lengths = map count_valid ms"
  define xr where "xr = regroup B S feats"
  have lm: "length ms = B" using ms(1) by (simp add: shape2_length)
  have ll: "length lengths = B" by (simp add: lengths_def lm)
  have lr: "0 < n \<and> n \<le> S" if "n \<in> set lengths" for n
  proof -
    from that obtain r where r: "r \<in> set ms" "n = count_valid r" by (auto simp add: lengths_def)
    with ms have "length r = S" "0 < count_valid r"
      by (auto simp add: shape2_def shape1_def list_all_iff)
    with r count_valid_le [of r] show ?thesis by simp
  qed
  have lx: "length xr = B" and rx: "\<And>r. r \<in> set xr \<Longrightarrow> length r = S"
    using regroup_shape [OF v(2)] by (simp_all add: xr_def)
  have conv: "map2 (\<lambda>xs n. temporal_model m (take n xs) ! (n - 1)) xr lengths =
        map2 (\<lambda>xs r. temporal_model m (take (count_valid r) xs) ! (count_valid r - 1)) xr ms"
    by (simp add: lengths_def zip_map2 split_beta)
  have gen: "recurrent_last_outputs m idx S xr lengths True =
        Inr (map2 (\<lambda>xs r. temporal_model m (take (count_valid r) xs) ! (count_valid r - 1)) xr ms)"
    if "distinct idx" "set idx = {0..<B}" "sorted (rev (map (\<lambda>i. lengths ! i) idx))" for idx
    using recurrent_last_outputs_masked [OF lstm that lx rx ll lr] conv by simp
  have "recurrent_last_outputs m (argsort_descending lengths) S xr lengths True =
        Inr (map2 (\<lambda>xs r. temporal_model m (take (count_valid r) xs) ! (count_valid r - 1)) xr ms)"
    using argsort_descending_perm [of lengths] ll by (intro gen) simp_all
  then have "VisionTransformer_forward m x img_mask (Some ms) =
           Inr (map (Linear_forward (temporal_fc m))
                  (map2 (\<lambda>xs r. temporal_model m (take (count_valid r) xs) ! (count_valid r - 1))
                     xr ms))"
    using um v(1) x lm
    by (simp add: VisionTransformer_forward_def Let_def xr_def lengths_def)
  with gen show ?thesis unfolding xr_def lengths_def by blast
qed

text \<open>
  Two clips with masks \<open>[1,1,1,0]\<close> and \<open>[1,1,1,1]\<close>: the states at time index 2 of
  the first clip and 3 of the second are selected, although the second clip is processed
  first after sorting.
\<close>

theorem VisionTransformer_recurrent_last_valid_witness:
  "VisionTransformer_forward
     \<lparr>vit = (\<lambda>imgs. Inr (map (\<lambda>img. concat (concat img)) imgs)), use_temporal_model = True,
       temporal_model = (\<lambda>xs. xs), lstm_output_size = 1,
       temporal_fc = \<lparr>lin_weight = [[Fin 1]], lin_bias = [Fin 0]\<rparr>,
       classifier = \<lparr>lin_weight = [[Fin 1]], lin_bias = [Fin 0]\<rparr>\<rparr>
     [[[[[Fin 10]]], [[[Fin 11]]], [[[Fin 12]]], [[[Fin 13]]]],
      [[[[Fin 20]]], [[[Fin 21]]], [[[Fin 22]]], [[[Fin 23]]]]]
     None (Some [[True, True, True, False], [True, True, True, True]])
   = Inr [[Fin 12], [Fin 23]]"
proof -
  have "VisionTransformer_forward
     \<lparr>vit = (\<lambda>imgs. Inr (map (\<lambda>img. concat (concat img)) imgs)), use_temporal_model = True,
       temporal_model = (\<lambda>xs. xs), lstm_output_size = 1,
       temporal_fc = \<lparr>lin_weight = [[Fin 1]], lin_bias = [Fin 0]\<rparr>,
       classifier = \<lparr>lin_weight = [[Fin 1]], lin_bias = [Fin 0]\<rparr>\<rparr>
     [[[[[Fin 10]]], [[[Fin 11]]], [[[Fin 12]]], [[[Fin 13]]]],
      [[[[Fin 20]]], [[[Fin 21]]], [[[Fin 22]]], [[[Fin 23]]]]]
     None (Some [[True, True, True, False], [True, True, True, True]])
   = Inr (map (Linear_forward \<lparr>lin_weight = [[Fin 1]], lin_bias = [Fin 0]\<rparr>)
           (map2 (\<lambda>xs r. take (count_valid r) xs ! (count_valid r - 1))
              (regroup 2 4 [[Fin 10], [Fin 11], [Fin 12], [Fin 13],
                            [Fin 20], [Fin 21], [Fin 22], [Fin 23]])
              [[True, True, True, False], [True, True, True, True]]))"
    using VisionTransformer_recurrent_last_valid [of
      "\<lparr>vit = (\<lambda>imgs. Inr (map (\<lambda>img. concat (concat img)) imgs)), use_temporal_model = True,
       temporal_model = (\<lambda>xs. xs), lstm_output_size = 1,
       temporal_fc = \<lparr>lin_weight = [[Fin 1]], lin_bias = [Fin 0]\<rparr>,
       classifier = \<lparr>lin_weight = [[Fin 1]], lin_bias = [Fin 0]\<rparr>\<rparr>"
      "[[[[[Fin 10]]], [[[Fin 11]]], [[[Fin 12]]], [[[Fin 13]]]],
        [[[[Fin 20]]], [[[Fin 21]]], [[[Fin 22]]], [[[Fin 23]]]]]"
      "[[Fin 10], [Fin 11], [Fin 12], [Fin 13], [Fin 20], [Fin 21], [Fin 22], [Fin 23]]"
      2 4 "[[True, True, True, False], [True, True, True, True]]" None]
    by (simp add: dim1_def shape2_def shape1_def count_valid_def)
  then show ?thesis
    by (simp add: regroup_def count_valid_def Linear_forward_def dot_def fsum_def numeral_2_eq_2)
qed

section \<open>The not-a-number check of VisionTransformerWithTemporal\<close>

lemma shape5_dims:
  assumes "shape5 x B S C H W" "0 < B" "0 < S" "0 < C" "0 < H"
  shows "length x = B" "dim1 x = S" "dim3 x = H" "dim4 x = W"
proof -
  from assms(1) have l: "length x = B" and a: "list_all (\<lambda>r. shape4 r S C H W) x"
    by (simp_all add: shape5_def)
  show "length x = B" by (rule l)
  from l assms(2) obtain r rs where x: "x = r # rs" by (cases x) auto
  with a have r: "shape4 r S C H W" by simp
  show "dim1 x = S" using r by (simp add: x dim1_def shape4_def)
  show "dim3 x = H" using r assms by (simp add: x dim3_def shape4_dim2)
  show "dim4 x = W" using r assms by (simp add: x dim4_def shape4_dim3)
qed

lemma concat_shape4:
  assumes "shape5 x B S C H W"
  shows "shape4 (concat x) (B * S) C H W"
proof -
  from assms have "list_all (\<lambda>r. length r = S) x" "length x = B"
    by (simp_all add: shape5_def shape4_def list_all_iff)
  then have "length (concat x) = B * S" by (simp add: length_concat_rect)
  moreover have "list_all (\<lambda>r. shape3 r C H W) (concat x)"
    using assms by (auto simp add: shape5_def shape4_def list_all_iff)
  ultimately show ?thesis by (simp add: shape4_def)
qed

lemma first_position_nonempty:
  "(\<And>r. r \<in> set y \<Longrightarrow> r \<noteq> []) \<Longrightarrow> first_position y = Inr (map hd y)"
proof (induction y rule: first_position.induct)
  case 1
  then show ?case by simp
next
  case (2 uu)
  from "2.prems" [of "[]"] show ?case by simp
next
  case (3 a uv rest)
  then show ?case by simp
qed

lemma cls_shape:
  assumes "shape3 p n t d" "length c = d"
  shows "shape3 (map (\<lambda>s. c # s) p) n (Suc t) d"
  using assms by (auto simp add: shape3_def shape2_def shape1_def list_all_iff)

lemma regroup_shape3:
  assumes "length f = B * S" "\<And>v. v \<in> set f \<Longrightarrow> length v = d"
  shows "shape3 (regroup B S f) B S d"
proof (rule shape3I)
  show "length (regroup B S f) = B" using regroup_shape(1) [OF assms(1)] .
  fix r assume r: "r \<in> set (regroup B S f)"
  then have "length r = S" by (rule regroup_shape(2) [OF assms(1)])
  moreover from r have "set r \<subseteq> set f"
    by (auto simp add: regroup_def dest: in_set_takeD in_set_dropD)
  ultimately show "shape2 r S d" using assms(2) by (intro shape2I) auto
qed

lemma spatial_encode_shape:
  assumes wf: "VisionTransformerWithTemporal_wf vt img_size patch_size in_channels embed_dim
                 num_classes winit binit"
    and x: "shape5 x B S (nat in_channels) (nat img_size) (nat img_size)" "0 < B" "0 < S"
  shows "\<exists>y t. spatial_encode vt x = Inr y \<and> 0 < t \<and> shape3 y (B * S) t (nat embed_dim)"
proof -
  define d where "d = nat embed_dim"
  define n where "n = nat ((img_size div patch_size) ^ 2)"
  define t where "t = (if vt_use_cls_token vt then Suc n else n)"
  from wf have pos: "0 < img_size" "0 < patch_size" "0 < in_channels" "0 < embed_dim"
    and pe: "PatchEmbedding_init img_size patch_size in_channels embed_dim winit binit
               = Inr (vt_patch_embed vt)"
    and po: "PositionalEncoding_init embed_dim
               ((img_size div patch_size) ^ 2 + (if vt_use_cls_token vt then 1 else 0))
               = Inr (vt_pos_encoder vt)"
    and cl: "length (vt_cls_token vt) = d"
    and en: "TransformerEncoder_wf (vt_transformer_encoder vt) d"
    and nm: "LayerNorm_wf (vt_norm vt) d"
    by (simp_all add: VisionTransformerWithTemporal_wf_def d_def)
  have bs: "0 < B * S" using x by simp
  have dims: "dim3 x = nat img_size" "dim4 x = nat img_size"
    using shape5_dims [OF x] pos by simp_all
  have sz: "pe_img_size (vt_patch_embed vt) = img_size"
    using PatchEmbedding_init_fields [OF pe] by simp
  from PatchEmbedding_forward_ok [OF pe pos bs concat_shape4 [OF x(1)]]
  obtain p where p: "PatchEmbedding_forward (vt_patch_embed vt) (concat x) = Inr p"
    "shape3 p (B * S) n d" by (auto simp add: n_def d_def)
  have npos: "0 < n"
  proof -
    from PatchEmbedding_init_fields [OF pe] have "patch_size dvd img_size" by simp
    with pos have "patch_size \<le> img_size" by (simp add: zdvd_imp_le)
    with pos have "0 < img_size div patch_size" by (simp add: pos_imp_zdiv_pos_iff)
    then show ?thesis by (simp add: n_def)
  qed
  have d2p: "dim2 p = d" using p(2) bs npos by (simp add: shape3_dim2)
  define tk where "tk = (if vt_use_cls_token vt then map (\<lambda>s. vt_cls_token vt # s) p else p)"
  have tk: "shape3 tk (B * S) t d"
    using p(2) cl by (simp add: tk_def t_def cls_shape)
  have tpos: "0 < t" using npos by (simp add: t_def)
  have ml: "t \<le> nat ((img_size div patch_size) ^ 2 + (if vt_use_cls_token vt then 1 else 0))"
    by (simp add: t_def n_def nat_add_distrib)
  from PositionalEncoding_forward_ok [OF po tk [unfolded d_def] bs tpos ml]
  obtain q where q: "PositionalEncoding_forward (vt_pos_encoder vt) tk = Inr q"
    "shape3 q (B * S) t d" by (auto simp add: d_def)
  from TransformerEncoder_forward_shape [OF en q(2) bs tpos, of None]
  obtain r where r: "TransformerEncoder_forward (vt_transformer_encoder vt) q None = Inr r"
    "shape3 r (B * S) t d" by auto
  have "shape3 (map (map (LayerNorm_forward (vt_norm vt))) r) (B * S) t d"
    by (rule map_rows_shape3 [OF r(2)]) (rule LayerNorm_forward_length [OF nm])
  moreover have "spatial_encode vt x = Inr (map (map (LayerNorm_forward (vt_norm vt))) r)"
    using p(1) q(1) r(1) cl pos
    by (simp add: spatial_encode_def dims sz d2p tk_def [symmetric])
  ultimately show ?thesis using tpos unfolding d_def by blast
qed

lemma temporal_classify_ok:
  assumes te: "TemporalTransformerEncoder_wf (vt_temporal_encoder vt) d"
    and hd: "Linear_wf (vt_head vt) c d"
    and f: "length f = B * S" "\<And>v. v \<in> set f \<Longrightarrow> length v = d"
    and pos: "0 < B" "0 < S"
    and sm: "case seq_mask of None \<Rightarrow> True | Some ms \<Rightarrow> shape2 ms B S"
  shows "\<exists>logits. temporal_classify vt B S f seq_mask = Inr logits \<and> shape2 logits B c"
proof -
  have g: "shape3 (regroup B S f) B S d" using f by (rule regroup_shape3)
  have "\<exists>out. TemporalTransformerEncoder_forward (vt_temporal_encoder vt) (regroup B S f) seq_mask
               = Inr out \<and> length out = B"
  proof (cases seq_mask)
    case None
    from TemporalTransformerEncoder_forward_unmasked [OF te g pos]
    show ?thesis by (auto simp add: None shape3_length)
  next
    case (Some ms)
    with sm have ms: "shape2 ms B S" by simp
    from TemporalTransformerEncoder_forward_masked [OF te g pos ms]
    show ?thesis using ms by (auto simp add: Some shape3_length shape2_length)
  qed
  then obtain out where out: "TemporalTransformerEncoder_forward (vt_temporal_encoder vt)
        (regroup B S f) seq_mask = Inr out" "length out = B" by blast
  have "shape2 (map (Linear_forward (vt_head vt)) out) B c"
    using out(2) hd by (intro shape2I) (auto simp add: Linear_forward_length)
  with out(1) show ?thesis by (simp add: temporal_classify_def)
qed

text \<open>
  C9.  For a well-formed model and a clip batch of the configured shape, the spatial stage
  returns the normalized encoder output \<open>y\<close>.  If any value of \<open>y\<close> is not-a-number,
  forward raises the explicit error; if none is, forward returns logits of shape
  \<open>[batch, num_classes]\<close> (for a sequence mask that is absent or of shape
  \<open>[batch, frames]\<close>).
\<close>

theorem VisionTransformerWithTemporal_nan_check:
  assumes wf: "VisionTransformerWithTemporal_wf vt img_size patch_size in_channels embed_dim
                 num_classes winit binit"
    and x: "shape5 x B S (nat in_channels) (nat img_size) (nat img_size)" "0 < B" "0 < S"
    and sm: "case seq_mask of None \<Rightarrow> True | Some ms \<Rightarrow> shape2 ms B S"
  shows "\<exists>y. spatial_encode vt x = Inr y \<and>
           (any_nan y \<longrightarrow>
              VisionTransformerWithTemporal_forward vt x img_mask seq_mask =
                Inl (ValueError ''NaN detected after Transformer encoder.'')) \<and>
           (\<not> any_nan y \<longrightarrow>
              (\<exists>logits. VisionTransformerWithTemporal_forward vt x img_mask seq_mask = Inr logits \<and>
                 shape2 logits B num_classes))"
proof -
  define d where "d = nat embed_dim"
  from wf have pos: "0 < img_size" "0 < in_channels"
    and te: "TemporalTransformerEncoder_wf (vt_temporal_encoder vt) d"
    and hd: "Linear_wf (vt_head vt) num_classes d"
    by (simp_all add: VisionTransformerWithTemporal_wf_def d_def)
  from spatial_encode_shape [OF wf x]
  obtain y t where y: "spatial_encode vt x = Inr y" "0 < t" "shape3 y (B * S) t d"
    by (auto simp add: d_def)
  have bs: "0 < B * S" using x by simp
  have lx: "length x = B" "dim1 x = S"
    using shape5_dims [OF x] pos by simp_all
  have ly: "length y = B * S" using y(3) by (rule shape3_length)
  have rows: "length r = t \<and> (\<forall>v\<in>set r. length v = d)" if "r \<in> set y" for r
    using shape3D [OF y(3) that] by (auto simp add: shape2_def shape1_def list_all_iff)
  have nan: "VisionTransformerWithTemporal_forward vt x img_mask seq_mask =
                Inl (ValueError ''NaN detected after Transformer encoder.'')" if "any_nan y"
    using that y(1) by (simp add: VisionTransformerWithTemporal_forward_def)
  have ok: "\<exists>logits. VisionTransformerWithTemporal_forward vt x img_mask seq_mask = Inr logits \<and>
                 shape2 logits B num_classes" if nn: "\<not> any_nan y"
  proof (cases "vt_use_cls_token vt")
    case True
    have fp: "first_position y = Inr (map hd y)"
      using rows y(2) by (intro first_position_nonempty) auto
    have "length v = d" if "v \<in> set (map hd y)" for v
    proof -
      from that obtain r where r: "r \<in> set y" "v = hd r" by auto
      with rows [OF r(1)] y(2) have "hd r \<in> set r" by (intro hd_in_set) auto
      with rows [OF r(1)] r(2) show ?thesis by simp
    qed
    from temporal_classify_ok [OF te hd _ this x(2,3) sm, of "map hd y"] ly
    show ?thesis
      using y(1) nn True fp by (simp add: VisionTransformerWithTemporal_forward_def lx)
  next
    case False
    have "length v = d" if "v \<in> set (map (mean_positions (dim2 y)) y)" for v
      using that y(3) bs y(2) by (auto simp add: mean_positions_def sum_positions_def shape3_dim2)
    from temporal_classify_ok [OF te hd _ this x(2,3) sm, of "map (mean_positions (dim2 y)) y"] ly
    show ?thesis
      using y(1) nn False by (simp add: VisionTransformerWithTemporal_forward_def lx)
  qed
  from y(1) nan ok show ?thesis by blast
qed

lemmas spatial_defs = spatial_encode_def tiny_vt_def PatchEmbedding_init_def Conv2d_init_def
  PatchEmbedding_forward_def Conv2d_forward_def conv_at_def flatten2_def transpose12_def
  transpose_rows_def PositionalEncoding_init_def PositionalEncoding_forward_def pe_entry_def
  dim3_def dim4_def

lemma tiny_vt_wf:
  "VisionTransformerWithTemporal_wf tiny_vt 1 1 1 2 2 (\<lambda>e c ky kx. Fin 0) (\<lambda>e. Fin 0)"
proof -
  have "TemporalTransformerEncoder_wf (tiny_temporal [Fin 0, Fin 0]) 2"
    using tiny_temporal_wf [of "[Fin 0, Fin 0]"] by (simp add: numeral_2_eq_2)
  then show ?thesis
    by (simp add: VisionTransformerWithTemporal_wf_def tiny_vt_def PatchEmbedding_init_def
      Conv2d_init_def PositionalEncoding_init_def TransformerEncoder_wf_def
      TransformerEncoderLayer_wf_def MultiHeadSelfAttention_wf_def LayerNorm_wf_def Linear_wf_def
      tiny_encoder_def tiny_layer_def const_norm_def const_linear_def
      shape2_def shape1_def list_all_iff)
qed

lemma tiny_vt_spatial:
  "spatial_encode tiny_vt [[[[[Fin 0]]]]] = Inr [[[Fin 0, Fin 0]]]"
  by (simp add: spatial_defs eval_defs tiny_defs numeral_2_eq_2)

lemma tiny_vt_spatial_nan:
  "spatial_encode tiny_vt [[[[[NaN]]]]] = Inr [[[NaN, NaN]]]"
  by (simp add: spatial_defs eval_defs tiny_defs numeral_2_eq_2)

theorem VisionTransformerWithTemporal_nan_check_witness:
  "(\<exists>logits. VisionTransformerWithTemporal_forward tiny_vt [[[[[Fin 0]]]]] None None = Inr logits \<and>
      shape2 logits 1 2) \<and>
   VisionTransformerWithTemporal_forward tiny_vt [[[[[NaN]]]]] None None =
     Inl (ValueError ''NaN detected after Transformer encoder.'')"
proof -
  have s: "shape5 [[[[[Fin 0]]]]] 1 1 (nat 1) (nat 1) (nat 1)"
    "shape5 [[[[[NaN]]]]] 1 1 (nat 1) (nat 1) (nat 1)"
    by (simp_all add: shape5_def shape4_def shape3_def shape2_def shape1_def)
  from VisionTransformerWithTemporal_nan_check [OF tiny_vt_wf s(1), of None None]
  have a: "\<exists>logits. VisionTransformerWithTemporal_forward tiny_vt [[[[[Fin 0]]]]] None None
             = Inr logits \<and> shape2 logits 1 2"
    by (simp add: tiny_vt_spatial any_nan_def)
  from VisionTransformerWithTemporal_nan_check [OF tiny_vt_wf s(2), of None None]
  have b: "VisionTransformerWithTemporal_forward tiny_vt [[[[[NaN]]]]] None None =
     Inl (ValueError ''NaN detected after Transformer encoder.'')"
    by (simp add: tiny_vt_spatial_nan any_nan_def)
  from a b show ?thesis by simp
qed

end
